theory Spec2Isabelle
  imports Main "HOL-Library.Word" "HOL-Library.Monad_Syntax"
begin

unbundle bit_operations_syntax

section \<open>Common C-level notions\<close>

text \<open>
  Bytes are \<open>uint8_t\<close>, C \<open>int\<close> values are modelled as \<open>int\<close> wherever the code's
  arithmetic stays far inside 32 bits, and the \<open>__u32\<close> fields that the V4L2 driver fills
  in are \<open>32 word\<close>, converted to \<open>int\<close> with \<open>sint\<close> as the C assignment does.
  A pointer is an \<open>option\<close>: \<open>None\<close> is \<open>NULL\<close>. A function whose C execution would
  read or write outside an object has no defined result; the model returns \<open>None\<close> there.
\<close>

type_synonym byte = "8 word"
type_synonym u32 = "32 word"
type_synonym float32 = "32 word"  \<comment> \<open>the bit pattern of an IEEE-754 single\<close>

text \<open>\<open>memcpy(dst, src, n)\<close> on arrays of elements: the first \<open>n\<close> elements of \<open>dst\<close>
  are replaced, the rest is kept; reading past \<open>src\<close> or writing past \<open>dst\<close> is
  undefined.\<close>

definition memcpy_elems :: "'a list \<Rightarrow> 'a list \<Rightarrow> int \<Rightarrow> 'a list option" where
  "memcpy_elems dst src n =
     (if 0 \<le> n \<and> nat n \<le> length src \<and> nat n \<le> length dst
      then Some (take (nat n) src @ drop (nat n) dst)
      else None)"

section \<open>The display pipeline: \<open>gst_video_player.c\<close>\<close>

definition MAX_FACE_BOXES :: int where
  "MAX_FACE_BOXES = 10"

datatype gst_player_error_t =
    GST_PLAYER_OK
  | GST_PLAYER_ERROR_INIT_FAILED
  | GST_PLAYER_ERROR_INVALID_PARAM
  | GST_PLAYER_ERROR_DEVICE_NOT_FOUND
  | GST_PLAYER_ERROR_PIPELINE_FAILED
  | GST_PLAYER_ERROR_NO_DISPLAY
  | GST_PLAYER_ERROR_WINDOW_INVALID

datatype gst_player_format_t =
    GST_PLAYER_FORMAT_MJPEG
  | GST_PLAYER_FORMAT_YUY2
  | GST_PLAYER_FORMAT_NV12

record gst_player_config_t =
  cfg_device :: "string option"
  cfg_width :: int
  cfg_height :: int
  cfg_fps :: int
  cfg_format :: gst_player_format_t
  cfg_use_hardware_decode :: bool
  cfg_use_rga :: bool
  cfg_face_detect_fps :: int
  cfg_face_detect_width :: int
  cfg_face_detect_height :: int

record gst_face_box_t =
  center_x :: float32
  center_y :: float32
  box_width :: float32
  box_height :: float32
  score :: float32

text \<open>The zeroed box that \<open>calloc\<close> leaves in every slot of \<open>face_boxes\<close>.\<close>

definition zero_box :: gst_face_box_t where
  "zero_box = \<lparr>center_x = 0, center_y = 0, box_width = 0, box_height = 0, score = 0\<rparr>"

text \<open>GStreamer objects are opaque; a reference is a number, \<open>None\<close> is \<open>NULL\<close>.\<close>

type_synonym gst_ref = nat

record gst_player_context_t =
  pipeline :: "gst_ref option"
  video_sink :: "gst_ref option"
  app_sink :: "gst_ref option"
  overlay :: "gst_ref option"
  bus :: "gst_ref option"
  device :: string
  p_width :: int
  p_height :: int
  p_fps :: int
  format :: gst_player_format_t
  use_hardware_decode :: bool
  x11_window_id :: nat
  frame_callback :: "nat option"
  callback_user_data :: "nat option"
  face_boxes :: "gst_face_box_t list"
  face_box_count :: int
  face_source_width :: int
  face_source_height :: int
  video_width :: int
  video_height :: int
  p_running :: bool
  playing :: bool
  face_detect_width :: int
  face_detect_height :: int
  p_frame_count :: int
  start_time :: int

text \<open>What the player asks of GStreamer and of the frame consumer, in call order.\<close>

datatype gst_state = GST_STATE_NULL | GST_STATE_PLAYING

datatype gst_call =
    Set_state gst_ref gst_state
  | Set_window_handle gst_ref nat
  | Frame_callback nat "nat option" int int int
  | Object_unref gst_ref

text \<open>
  The cairo calls of the draw callback. The \<open>double\<close> arguments of \<open>cairo_rectangle\<close> and
  \<open>cairo_move_to\<close> are computed from the box and from the four dimensions of the context;
  the call records these operands, and \<open>cairo_show_text\<close> records the score it prints.
\<close>

datatype cairo_call =
    Cairo_set_source_rgb
  | Cairo_set_line_width
  | Cairo_rectangle gst_face_box_t int int int int
  | Cairo_stroke
  | Cairo_set_font_size
  | Cairo_move_to gst_face_box_t int int int int
  | Cairo_show_text float32

text \<open>\<open>box->score > 0\<close> on the bit pattern of a single: true for the positive finite
  values and for \<open>+inf\<close>, false for both zeros, the negative values and every NaN.\<close>

definition float32_gt_zero :: "float32 \<Rightarrow> bool" where
  "float32_gt_zero w \<longleftrightarrow> 0 < w \<and> w \<le> 0x7F800000"

definition draw_box :: "gst_player_context_t \<Rightarrow> gst_face_box_t \<Rightarrow> cairo_call list" where
  "draw_box ctx b =
     [Cairo_set_source_rgb, Cairo_set_line_width,
      Cairo_rectangle b (video_width ctx) (video_height ctx)
        (face_source_width ctx) (face_source_height ctx),
      Cairo_stroke]
     @ (if float32_gt_zero (score b)
        then [Cairo_set_font_size,
              Cairo_move_to b (video_width ctx) (video_height ctx)
                (face_source_width ctx) (face_source_height ctx),
              Cairo_show_text (score b)]
        else [])"

text \<open>The loop \<open>for (i = 0; i < face_box_count && i < MAX_FACE_BOXES; i++)\<close> over the
  array \<open>face_boxes\<close>.\<close>

fun draw_loop :: "gst_player_context_t \<Rightarrow> nat \<Rightarrow> nat \<Rightarrow> cairo_call list" where
  "draw_loop ctx 0 i = []"
| "draw_loop ctx (Suc k) i =
     (if int i < face_box_count ctx \<and> int i < MAX_FACE_BOXES \<and> i < length (face_boxes ctx)
      then draw_box ctx (face_boxes ctx ! i) @ draw_loop ctx k (Suc i)
      else [])"

definition on_cairo_draw :: "gst_player_context_t option \<Rightarrow> cairo_call list" where
  "on_cairo_draw user_data =
     (case user_data of
        None \<Rightarrow> []
      | Some ctx \<Rightarrow>
          if face_box_count ctx \<le> 0 \<or> video_width ctx \<le> 0 \<or> face_source_width ctx \<le> 0
          then []
          else draw_loop ctx (nat MAX_FACE_BOXES) 0)"

text \<open>\<open>on_caps_changed\<close>: \<open>gst_structure_get_int\<close> stores a field only when the caps
  structure has it; \<open>None\<close> stands for caps without a structure or without the field.\<close>

definition on_caps_changed ::
  "gst_player_context_t option \<Rightarrow> (int option \<times> int option) option \<Rightarrow> gst_player_context_t option"
where
  "on_caps_changed user_data caps =
     (case user_data of
        None \<Rightarrow> None
      | Some ctx \<Rightarrow>
          (case caps of
             None \<Rightarrow> Some ctx
           | Some (w, h) \<Rightarrow>
               Some (ctx\<lparr>video_width := (case w of None \<Rightarrow> video_width ctx | Some v \<Rightarrow> v),
                         video_height := (case h of None \<Rightarrow> video_height ctx | Some v \<Rightarrow> v)\<rparr>)))"

text \<open>\<open>on_new_sample\<close>: \<open>sample\<close> is what \<open>gst_app_sink_pull_sample\<close>,
  \<open>gst_sample_get_buffer\<close> and \<open>gst_buffer_map\<close> deliver: \<open>Some data\<close> when all three
  succeed. The context is not written.\<close>

definition on_new_sample :: "gst_player_context_t option \<Rightarrow> nat option \<Rightarrow> gst_call list" where
  "on_new_sample user_data sample =
     (case user_data of
        None \<Rightarrow> []
      | Some ctx \<Rightarrow>
          if \<not> p_running ctx then []
          else (case sample of
                  None \<Rightarrow> []
                | Some d \<Rightarrow>
                    (case frame_callback ctx of
                       None \<Rightarrow> []
                     | Some cb \<Rightarrow>
                         [Frame_callback cb (callback_user_data ctx) (face_detect_width ctx)
                            (face_detect_height ctx) (face_detect_width ctx * 4)])))"

text \<open>
  \<open>gst_player_create\<close>. The environment gives the outcome of the framework calls:
  whether \<open>gst_player_global_init\<close> succeeds, whether the two allocations succeed, and what
  \<open>gst_parse_launch\<close> and \<open>gst_bin_get_by_name\<close> return. \<open>build_pipeline_string\<close>
  returns \<open>NULL\<close> when its buffer cannot be allocated or the format is neither MJPEG nor
  YUY2; the text of the pipeline does not enter the context, and the model is of
  configurations whose pipeline text fits the 1024 bytes of that buffer.
\<close>

record create_env =
  ce_global_init_ok :: bool
  ce_calloc_ok :: bool
  ce_malloc_ok :: bool
  ce_pipeline :: "gst_ref option"
  ce_parse_error :: bool
  ce_video_sink :: "gst_ref option"
  ce_app_sink :: "gst_ref option"
  ce_overlay :: "gst_ref option"
  ce_bus :: "gst_ref option"

definition build_pipeline_string_ok :: "create_env \<Rightarrow> gst_player_config_t \<Rightarrow> bool" where
  "build_pipeline_string_ok env config \<longleftrightarrow>
     ce_malloc_ok env \<and>
     (case cfg_format config of
        GST_PLAYER_FORMAT_MJPEG \<Rightarrow> True
      | GST_PLAYER_FORMAT_YUY2 \<Rightarrow> True
      | GST_PLAYER_FORMAT_NV12 \<Rightarrow> False)"

definition gst_player_create ::
  "create_env \<Rightarrow> gst_player_config_t option \<Rightarrow> gst_player_context_t option"
where
  "gst_player_create env config =
     (case config of
        None \<Rightarrow> None
      | Some cfg \<Rightarrow>
          (case cfg_device cfg of
             None \<Rightarrow> None
           | Some dev \<Rightarrow>
               if \<not> ce_global_init_ok env then None
               else if \<not> ce_calloc_ok env then None
               else
                 let fdw = (if cfg_face_detect_width cfg > 0 then cfg_face_detect_width cfg
                            else cfg_width cfg);
                     fdh = (if cfg_face_detect_height cfg > 0 then cfg_face_detect_height cfg
                            else cfg_height cfg);
                     ctx = \<lparr>pipeline = None, video_sink = None, app_sink = None,
                            overlay = None, bus = None,
                            device = take 63 dev,
                            p_width = cfg_width cfg, p_height = cfg_height cfg,
                            p_fps = cfg_fps cfg, format = cfg_format cfg,
                            use_hardware_decode = cfg_use_hardware_decode cfg,
                            x11_window_id = 0,
                            frame_callback = None, callback_user_data = None,
                            face_boxes = replicate (nat MAX_FACE_BOXES) zero_box,
                            face_box_count = 0,
                            face_source_width = fdw, face_source_height = fdh,
                            video_width = 0, video_height = 0,
                            p_running = False, playing = False,
                            face_detect_width = fdw, face_detect_height = fdh,
                            p_frame_count = 0, start_time = 0\<rparr>
                 in if \<not> build_pipeline_string_ok env cfg then None
                    else if ce_pipeline env = None \<or> ce_parse_error env then None
                    else Some (ctx\<lparr>pipeline := ce_pipeline env,
                                   video_sink := ce_video_sink env,
                                   app_sink := ce_app_sink env,
                                   overlay := ce_overlay env,
                                   bus := ce_bus env\<rparr>)))"

definition gst_player_set_window ::
  "gst_player_context_t option \<Rightarrow> nat \<Rightarrow>
   gst_player_error_t \<times> gst_player_context_t option \<times> gst_call list"
where
  "gst_player_set_window handle wid =
     (case handle of
        None \<Rightarrow> (GST_PLAYER_ERROR_INVALID_PARAM, None, [])
      | Some ctx \<Rightarrow>
          (case video_sink ctx of
             None \<Rightarrow> (GST_PLAYER_ERROR_INVALID_PARAM, Some ctx, [])
           | Some vs \<Rightarrow>
               (GST_PLAYER_OK, Some (ctx\<lparr>x11_window_id := wid\<rparr>), [Set_window_handle vs wid])))"

definition gst_player_set_frame_callback ::
  "gst_player_context_t option \<Rightarrow> nat option \<Rightarrow> nat option \<Rightarrow>
   gst_player_error_t \<times> gst_player_context_t option"
where
  "gst_player_set_frame_callback handle cb ud =
     (case handle of
        None \<Rightarrow> (GST_PLAYER_ERROR_INVALID_PARAM, None)
      | Some ctx \<Rightarrow>
          (GST_PLAYER_OK, Some (ctx\<lparr>frame_callback := cb, callback_user_data := ud\<rparr>)))"

text \<open>\<open>gst_player_start\<close>: the environment gives the clock reading of \<open>get_time_us\<close>
  and whether \<open>gst_element_set_state\<close> reports \<open>GST_STATE_CHANGE_FAILURE\<close>.\<close>

record start_env =
  se_time_us :: int
  se_state_change_failure :: bool

definition gst_player_start ::
  "start_env \<Rightarrow> gst_player_context_t option \<Rightarrow>
   gst_player_error_t \<times> gst_player_context_t option \<times> gst_call list"
where
  "gst_player_start env handle =
     (case handle of
        None \<Rightarrow> (GST_PLAYER_ERROR_INVALID_PARAM, None, [])
      | Some ctx \<Rightarrow>
          (case pipeline ctx of
             None \<Rightarrow> (GST_PLAYER_ERROR_INVALID_PARAM, Some ctx, [])
           | Some p \<Rightarrow>
               if playing ctx then (GST_PLAYER_OK, Some ctx, [])
               else
                 let ctx1 = ctx\<lparr>p_running := True, playing := True,
                                start_time := se_time_us env, p_frame_count := 0\<rparr>
                 in if se_state_change_failure env
                    then (GST_PLAYER_ERROR_PIPELINE_FAILED,
                          Some (ctx1\<lparr>p_running := False, playing := False\<rparr>),
                          [Set_state p GST_STATE_PLAYING])
                    else (GST_PLAYER_OK, Some ctx1, [Set_state p GST_STATE_PLAYING])))"

definition gst_player_stop ::
  "gst_player_context_t option \<Rightarrow>
   gst_player_error_t \<times> gst_player_context_t option \<times> gst_call list"
where
  "gst_player_stop handle =
     (case handle of
        None \<Rightarrow> (GST_PLAYER_ERROR_INVALID_PARAM, None, [])
      | Some ctx \<Rightarrow>
          if \<not> playing ctx then (GST_PLAYER_OK, Some ctx, [])
          else
            (GST_PLAYER_OK, Some (ctx\<lparr>p_running := False, playing := False\<rparr>),
             (case pipeline ctx of
                None \<Rightarrow> []
              | Some p \<Rightarrow> [Set_state p GST_STATE_NULL])))"

definition gst_player_is_playing :: "gst_player_context_t option \<Rightarrow> bool" where
  "gst_player_is_playing handle = (case handle of None \<Rightarrow> False | Some ctx \<Rightarrow> playing ctx)"

text \<open>
  \<open>gst_player_set_face_boxes\<close>. \<open>boxes\<close> is the caller's array (\<open>None\<close> for \<open>NULL\<close>);
  the result is \<open>None\<close> when \<open>memcpy\<close> would read past the end of that array.
\<close>

definition gst_player_set_face_boxes ::
  "gst_player_context_t option \<Rightarrow> gst_face_box_t list option \<Rightarrow> int \<Rightarrow> int \<Rightarrow> int \<Rightarrow>
   (gst_player_error_t \<times> gst_player_context_t option) option"
where
  "gst_player_set_face_boxes handle boxes count source_width source_height =
     (case handle of
        None \<Rightarrow> Some (GST_PLAYER_ERROR_INVALID_PARAM, None)
      | Some ctx \<Rightarrow>
          (case boxes of
             None \<Rightarrow> Some (GST_PLAYER_OK, Some (ctx\<lparr>face_box_count := 0\<rparr>))
           | Some bs \<Rightarrow>
               if count > 0 then
                 let n = (if count < MAX_FACE_BOXES then count else MAX_FACE_BOXES)
                 in (case memcpy_elems (face_boxes ctx) bs n of
                       None \<Rightarrow> None
                     | Some stored \<Rightarrow>
                         Some (GST_PLAYER_OK,
                               Some (ctx\<lparr>face_boxes := stored,
                                         face_box_count := n,
                                         face_source_width :=
                                           (if source_width > 0 then source_width
                                            else face_detect_width ctx),
                                         face_source_height :=
                                           (if source_height > 0 then source_height
                                            else face_detect_height ctx)\<rparr>)))
               else Some (GST_PLAYER_OK, Some (ctx\<lparr>face_box_count := 0\<rparr>))))"

definition gst_player_clear_face_boxes ::
  "gst_player_context_t option \<Rightarrow> gst_player_context_t option"
where
  "gst_player_clear_face_boxes handle =
     (case handle of
        None \<Rightarrow> None
      | Some ctx \<Rightarrow> Some (ctx\<lparr>face_box_count := 0\<rparr>))"

text \<open>
  Every entry point and callback that can run on a live player context, as one step
  function; \<open>None\<close> is the undefined \<open>memcpy\<close> of \<open>gst_player_set_face_boxes\<close>.
  \<open>gst_player_get_stats\<close>, \<open>gst_player_is_playing\<close>, the draw callback and the sample
  callback do not write the context.
\<close>

datatype player_op =
    Op_set_window nat
  | Op_set_frame_callback "nat option" "nat option"
  | Op_start start_env
  | Op_stop
  | Op_set_face_boxes "gst_face_box_t list option" int int int
  | Op_clear_face_boxes
  | Op_caps_changed "(int option \<times> int option) option"
  | Op_cairo_draw
  | Op_new_sample "nat option"
  | Op_get_stats
  | Op_is_playing

fun player_step :: "player_op \<Rightarrow> gst_player_context_t \<Rightarrow> gst_player_context_t option" where
  "player_step (Op_set_window w) ctx = fst (snd (gst_player_set_window (Some ctx) w))"
| "player_step (Op_set_frame_callback cb ud) ctx =
     snd (gst_player_set_frame_callback (Some ctx) cb ud)"
| "player_step (Op_start env) ctx = fst (snd (gst_player_start env (Some ctx)))"
| "player_step Op_stop ctx = fst (snd (gst_player_stop (Some ctx)))"
| "player_step (Op_set_face_boxes bs n sw sh) ctx =
     (case gst_player_set_face_boxes (Some ctx) bs n sw sh of
        None \<Rightarrow> None
      | Some r \<Rightarrow> snd r)"
| "player_step Op_clear_face_boxes ctx = gst_player_clear_face_boxes (Some ctx)"
| "player_step (Op_caps_changed caps) ctx = on_caps_changed (Some ctx) caps"
| "player_step Op_cairo_draw ctx = Some ctx"
| "player_step (Op_new_sample s) ctx = Some ctx"
| "player_step Op_get_stats ctx = Some ctx"
| "player_step Op_is_playing ctx = Some ctx"

fun player_run :: "player_op list \<Rightarrow> gst_player_context_t \<Rightarrow> gst_player_context_t option" where
  "player_run [] ctx = Some ctx"
| "player_run (op # ops) ctx =
     (case player_step op ctx of
        None \<Rightarrow> None
      | Some ctx' \<Rightarrow> player_run ops ctx')"

section \<open>The capture pipeline: \<open>v4l2_mpp_camera.c\<close>\<close>

text \<open>
  The model is the build without \<open>USE_RGA\<close> and without \<open>USE_NEON\<close>: colour conversion
  is the scalar CPU code. The timing statistics (\<open>clock_gettime\<close> and the accumulated
  microseconds) and the log output are left out; they do not reach the context.
  A result \<open>None\<close> of a function of this section means that the C call has no defined
  result: it reads or writes outside an object, or it does not return.
\<close>

text \<open>\<open>V4L2_BUFFER_COUNT\<close> is the number of buffers \<open>v4l2_init\<close> asks the driver for; the
  driver answers with the number it grants.\<close>

definition V4L2_BUFFER_COUNT :: u32 where
  "V4L2_BUFFER_COUNT = 4"

definition MPP_BUFFER_COUNT :: int where
  "MPP_BUFFER_COUNT = 8"

text \<open>Constants of \<open>linux/videodev2.h\<close>: the fourcc \<open>'M','J','P','G'\<close> and the two
  capability bits.\<close>

definition V4L2_PIX_FMT_MJPEG :: u32 where
  "V4L2_PIX_FMT_MJPEG = 0x47504A4D"

definition V4L2_CAP_VIDEO_CAPTURE :: u32 where
  "V4L2_CAP_VIDEO_CAPTURE = 0x00000001"

definition V4L2_CAP_STREAMING :: u32 where
  "V4L2_CAP_STREAMING = 0x04000000"

text \<open>\<open>ALIGN(x, a) = ((x) + (a) - 1) & ~((a) - 1)\<close> on \<open>int\<close>.\<close>

definition ALIGN :: "int \<Rightarrow> int \<Rightarrow> int" where
  "ALIGN x a = (x + a - 1) AND NOT (a - 1)"

text \<open>The range of \<open>int\<close>; an \<open>int\<close> operation whose mathematical result is outside it
  has no defined result. \<open>size_t\<close> has 64 bits on the target, and an \<open>int\<close> converted
  to it wraps.\<close>

definition in_int_range :: "int \<Rightarrow> bool" where
  "in_int_range x \<longleftrightarrow> - 2147483648 \<le> x \<and> x \<le> 2147483647"

definition size_t_of_int :: "int \<Rightarrow> nat" where
  "size_t_of_int x = nat (x mod 2 ^ 64)"

datatype camera_error_t =
    CAMERA_OK
  | CAMERA_ERROR_DEVICE_NOT_FOUND
  | CAMERA_ERROR_DEVICE_BUSY
  | CAMERA_ERROR_NOT_SUPPORTED
  | CAMERA_ERROR_INVALID_PARAM
  | CAMERA_ERROR_MPP_INIT_FAILED
  | CAMERA_ERROR_V4L2_INIT_FAILED
  | CAMERA_ERROR_OUT_OF_MEMORY
  | CAMERA_ERROR_DECODE_FAILED
  | CAMERA_ERROR_NOT_RUNNING

text \<open>A mapping of a kernel buffer: not mapped yet, \<open>MAP_FAILED\<close>, or an address.\<close>

datatype map_ptr = Map_null | Map_failed | Map_at nat

record v4l2_buffer_t =
  buf_start :: map_ptr
  buf_length :: nat

record mpp_decode_buffer_t =
  pkt_buf :: "nat option"
  frm_buf :: "nat option"
  pkt_buf_size :: nat
  frm_buf_size :: nat

record camera_context_t =
  v4l2_fd :: int
  v4l2_buffers :: "v4l2_buffer_t list"
  buffer_count :: int
  width :: int
  height :: int
  fps :: int
  mpp_ctx :: "nat option"
  mpp_mpi :: "nat option"
  frm_grp :: "nat option"
  decode_bufs :: "mpp_decode_buffer_t list"
  current_buf_idx :: int
  mpp_initialized :: int
  bgra_buffer :: "byte list option list"
  bgra_write_idx :: int
  bgra_buffer_size :: int
  capture_thread :: nat
  running :: int
  thread_started :: int
  callback :: "nat option"
  user_data :: "nat option"
  frame_count :: int
  decode_count :: int

text \<open>The calls the camera makes on the kernel, on the thread library and on the frame
  consumer. \<open>Invoke_callback cb user_data slot width height stride\<close> passes
  \<open>bgra_buffer[slot]\<close>.\<close>

datatype cam_call =
    Ioctl_qbuf nat
  | Ioctl_dqbuf
  | Ioctl_streamon
  | Ioctl_streamoff
  | Pthread_create nat
  | Pthread_join nat
  | Invoke_callback nat "nat option" int int int int

text \<open>
  \<open>xioctl\<close> repeats \<open>ioctl\<close> while it answers \<open>-1\<close> with \<open>EINTR\<close> or \<open>EAGAIN\<close>. The
  kernel's answers to the repeated call are a list; when every answer asks for a retry the
  loop does not end.
\<close>

datatype errno_t = EINTR | EAGAIN | E_other nat

datatype ioctl_answer = Answer_ok | Answer_err errno_t

fun xioctl :: "ioctl_answer list \<Rightarrow> ioctl_answer option" where
  "xioctl [] = None"
| "xioctl (Answer_err EINTR # later) = xioctl later"
| "xioctl (Answer_err EAGAIN # later) = xioctl later"
| "xioctl (a # later) = Some a"

text \<open>\<open>xioctl(...) < 0\<close>.\<close>

definition failed :: "ioctl_answer \<Rightarrow> bool" where
  "failed a \<longleftrightarrow> a \<noteq> Answer_ok"

subsection \<open>\<open>v4l2_init\<close>\<close>

text \<open>What the device answers during \<open>v4l2_init\<close>: the descriptor of \<open>open\<close>, the answers
  to each \<open>xioctl\<close>, and the fields the driver writes back into the argument structures.\<close>

record v4l2_env =
  ve_open_fd :: int
  ve_querycap :: "ioctl_answer list"
  ve_capabilities :: u32
  ve_s_fmt :: "ioctl_answer list"
  ve_pixelformat :: u32
  ve_width :: u32
  ve_height :: u32
  ve_s_parm :: "ioctl_answer list"
  ve_reqbufs :: "ioctl_answer list"
  ve_req_count :: u32
  ve_querybuf :: "nat \<Rightarrow> ioctl_answer list"
  ve_buf_length :: "nat \<Rightarrow> nat"
  ve_mmap :: "nat \<Rightarrow> map_ptr"

text \<open>The loop that maps the granted buffers; \<open>k\<close> iterations remain and \<open>i\<close> is the
  loop index. \<open>v4l2_buffers\<close> has four slots, and an index past them is a write outside
  the array.\<close>

fun map_buffers ::
  "v4l2_env \<Rightarrow> nat \<Rightarrow> nat \<Rightarrow> camera_context_t \<Rightarrow> (int \<times> camera_context_t) option"
where
  "map_buffers env 0 i ctx = Some (0, ctx)"
| "map_buffers env (Suc k) i ctx =
     (case xioctl (ve_querybuf env i) of
        None \<Rightarrow> None
      | Some a \<Rightarrow>
          if failed a then Some (-1, ctx)
          else if length (v4l2_buffers ctx) \<le> i then None
          else
            let ctx' = ctx\<lparr>v4l2_buffers := (v4l2_buffers ctx)
                             [i := \<lparr>buf_start = ve_mmap env i,
                                    buf_length = ve_buf_length env i\<rparr>]\<rparr>
            in if ve_mmap env i = Map_failed then Some (-1, ctx')
               else map_buffers env k (Suc i) ctx')"

definition v4l2_init :: "v4l2_env \<Rightarrow> camera_context_t \<Rightarrow> (int \<times> camera_context_t) option" where
  "v4l2_init env ctx0 =
     (let ctx = ctx0\<lparr>v4l2_fd := ve_open_fd env\<rparr> in
      if v4l2_fd ctx < 0 then Some (-1, ctx)
      else
        (case xioctl (ve_querycap env) of
           None \<Rightarrow> None
         | Some a1 \<Rightarrow>
             if failed a1 then Some (-1, ctx)
             else if ve_capabilities env AND V4L2_CAP_VIDEO_CAPTURE = 0 then Some (-1, ctx)
             else if ve_capabilities env AND V4L2_CAP_STREAMING = 0 then Some (-1, ctx)
             else
               (case xioctl (ve_s_fmt env) of
                  None \<Rightarrow> None
                | Some a2 \<Rightarrow>
                    if failed a2 then Some (-1, ctx)
                    else if ve_pixelformat env \<noteq> V4L2_PIX_FMT_MJPEG then Some (-1, ctx)
                    else
                      let ctx = ctx\<lparr>width := sint (ve_width env),
                                     height := sint (ve_height env)\<rparr>
                      in (case xioctl (ve_s_parm env) of
                            None \<Rightarrow> None
                          | Some a3 \<Rightarrow>
                              (case xioctl (ve_reqbufs env) of
                                 None \<Rightarrow> None
                               | Some a4 \<Rightarrow>
                                   if failed a4 then Some (-1, ctx)
                                   else if ve_req_count env < 2 then Some (-1, ctx)
                                   else
                                     let ctx = ctx\<lparr>buffer_count := sint (ve_req_count env)\<rparr>
                                     in map_buffers env (nat (buffer_count ctx)) 0 ctx)))))"

subsection \<open>\<open>mpp_decoder_init\<close>\<close>

text \<open>The outcome of the decoder library calls: \<open>MPP_OK\<close> or not for each, and the
  buffer handle each \<open>mpp_buffer_get\<close> delivers (\<open>None\<close> when it fails).\<close>

record mpp_init_env =
  me_create :: "(nat \<times> nat) option"
  me_init_ok :: bool
  me_group :: "nat option"
  me_pkt_buffer :: "nat \<Rightarrow> nat option"
  me_frm_buffer :: "nat \<Rightarrow> nat option"

text \<open>The allocation loop over the \<open>MPP_BUFFER_COUNT\<close> decode slots; \<open>k\<close> iterations
  remain and \<open>i\<close> is the loop index. An index past \<open>decode_bufs\<close> is a write outside
  the array.\<close>

fun alloc_decode_bufs ::
  "mpp_init_env \<Rightarrow> nat \<Rightarrow> nat \<Rightarrow> nat \<Rightarrow> nat \<Rightarrow> camera_context_t
   \<Rightarrow> (int \<times> camera_context_t) option"
where
  "alloc_decode_bufs env pkt_size frm_size 0 i ctx = Some (0, ctx)"
| "alloc_decode_bufs env pkt_size frm_size (Suc k) i ctx =
     (if length (decode_bufs ctx) \<le> i then None
      else
        (case me_pkt_buffer env i of
           None \<Rightarrow> Some (-1, ctx)
         | Some pb \<Rightarrow>
             let ctx1 = ctx\<lparr>decode_bufs := (decode_bufs ctx)
                              [i := (decode_bufs ctx ! i)\<lparr>pkt_buf := Some pb,
                                                          pkt_buf_size := pkt_size\<rparr>]\<rparr>
             in (case me_frm_buffer env i of
                   None \<Rightarrow> Some (-1, ctx1)
                 | Some fb \<Rightarrow>
                     alloc_decode_bufs env pkt_size frm_size k (Suc i)
                       (ctx1\<lparr>decode_bufs := (decode_bufs ctx1)
                               [i := (decode_bufs ctx1 ! i)\<lparr>frm_buf := Some fb,
                                                            frm_buf_size := frm_size\<rparr>]\<rparr>))))"

text \<open>
  \<open>hor_stride\<close> and \<open>ver_stride\<close> are \<open>RK_U32\<close>, so \<open>frm_size\<close> is computed in unsigned
  32-bit arithmetic. \<open>pkt_size\<close> is the \<open>int\<close> product \<open>width * height\<close> converted to
  \<open>size_t\<close>. The result of \<open>MPP_DEC_GET_CFG\<close> only decides whether the two
  configuration keys are set in the decoder and does not reach the context.
\<close>

definition mpp_decoder_init ::
  "mpp_init_env \<Rightarrow> camera_context_t \<Rightarrow> (int \<times> camera_context_t) option"
where
  "mpp_decoder_init env ctx =
     (case me_create env of
        None \<Rightarrow> Some (-1, ctx)
      | Some (c, m) \<Rightarrow>
          let ctx = ctx\<lparr>mpp_ctx := Some c, mpp_mpi := Some m\<rparr> in
          if \<not> me_init_ok env then Some (-1, ctx)
          else
            (case me_group env of
               None \<Rightarrow> Some (-1, ctx)
             | Some g \<Rightarrow>
                 let ctx = ctx\<lparr>frm_grp := Some g\<rparr>;
                     hor_stride = (word_of_int (ALIGN (width ctx) 16) :: u32);
                     ver_stride = (word_of_int (ALIGN (height ctx) 16) :: u32);
                     frm_size = unat (hor_stride * ver_stride * 4)
                 in if \<not> in_int_range (width ctx + 16) \<or> \<not> in_int_range (height ctx + 16)
                       \<or> \<not> in_int_range (width ctx * height ctx)
                    then None
                    else
                      (case alloc_decode_bufs env (size_t_of_int (width ctx * height ctx)) frm_size
                              (nat MPP_BUFFER_COUNT) 0 ctx of
                         None \<Rightarrow> None
                       | Some (r, ctx') \<Rightarrow>
                           if r \<noteq> 0 then Some (-1, ctx')
                           else Some (0, ctx'\<lparr>current_buf_idx := 0,
                                             mpp_initialized := 1\<rparr>))))"

subsection \<open>\<open>camera_init\<close>\<close>

text \<open>
  The environment of \<open>camera_init\<close>: whether \<open>calloc\<close> succeeds, the device and the
  decoder library, and the two \<open>malloc\<close> results (\<open>None\<close> for \<open>NULL\<close>, otherwise the
  indeterminate bytes of the fresh block; \<open>malloc\<close> was asked for \<open>bgra_buffer_size\<close>
  bytes, and the model cuts or pads the block to that size with zero bytes).
  On each failure \<open>camera_deinit\<close> frees the context and the result is \<open>NULL\<close>.
\<close>

record init_env =
  ie_calloc_ok :: bool
  ie_v4l2 :: v4l2_env
  ie_mpp :: mpp_init_env
  ie_malloc0 :: "byte list option"
  ie_malloc1 :: "byte list option"

definition zeroed_context :: camera_context_t where
  "zeroed_context =
     \<lparr>v4l2_fd = 0,
      v4l2_buffers = replicate 4 \<lparr>buf_start = Map_null, buf_length = 0\<rparr>,
      buffer_count = 0, width = 0, height = 0, fps = 0,
      mpp_ctx = None, mpp_mpi = None, frm_grp = None,
      decode_bufs = replicate 8 \<lparr>pkt_buf = None, frm_buf = None,
                                 pkt_buf_size = 0, frm_buf_size = 0\<rparr>,
      current_buf_idx = 0, mpp_initialized = 0,
      bgra_buffer = [None, None], bgra_write_idx = 0, bgra_buffer_size = 0,
      capture_thread = 0, running = 0, thread_started = 0,
      callback = None, user_data = None, frame_count = 0, decode_count = 0\<rparr>"

definition sized_block :: "int \<Rightarrow> byte list \<Rightarrow> byte list" where
  "sized_block n bytes = take (nat n) bytes @ replicate (nat n - length bytes) 0"

definition camera_init ::
  "init_env \<Rightarrow> string option \<Rightarrow> int \<Rightarrow> int \<Rightarrow> int \<Rightarrow> camera_context_t option option"
where
  "camera_init env dev w h f =
     (if dev = None \<or> w \<le> 0 \<or> h \<le> 0 \<or> f \<le> 0 then Some None
      else if \<not> ie_calloc_ok env then Some None
      else
        let ctx = zeroed_context\<lparr>width := w, height := h, fps := f,
                                 v4l2_fd := -1, bgra_write_idx := 0\<rparr>
        in (case v4l2_init (ie_v4l2 env) ctx of
              None \<Rightarrow> None
            | Some (r1, ctx1) \<Rightarrow>
                if r1 \<noteq> 0 then Some None
                else
                  (case mpp_decoder_init (ie_mpp env) ctx1 of
                     None \<Rightarrow> None
                   | Some (r2, ctx2) \<Rightarrow>
                       if r2 \<noteq> 0 then Some None
                       else if \<not> in_int_range (w * h) \<or> \<not> in_int_range (w * h * 4) then None
                       else
                         let ctx3 = ctx2\<lparr>bgra_buffer_size := w * h * 4\<rparr>;
                             ctx4 = ctx3\<lparr>bgra_buffer :=
                                      [map_option (sized_block (bgra_buffer_size ctx3))
                                         (ie_malloc0 env),
                                       map_option (sized_block (bgra_buffer_size ctx3))
                                         (ie_malloc1 env)]\<rparr>
                         in if ie_malloc0 env = None \<or> ie_malloc1 env = None then Some None
                            else Some (Some ctx4))))"

subsection \<open>\<open>camera_start\<close>, \<open>camera_stop\<close>, \<open>camera_capture_frame\<close>\<close>

record stream_env =
  st_qbuf :: "nat \<Rightarrow> ioctl_answer list"
  st_streamon :: "ioctl_answer list"
  st_streamoff :: "ioctl_answer list"
  st_create_fifo_ok :: bool
  st_create_default_ok :: bool
  st_thread :: nat

text \<open>The loop of \<open>v4l2_start_streaming\<close> that queues every buffer.\<close>

fun qbuf_all :: "stream_env \<Rightarrow> nat \<Rightarrow> nat \<Rightarrow> (int \<times> cam_call list) option" where
  "qbuf_all env 0 i = Some (0, [])"
| "qbuf_all env (Suc k) i =
     (case xioctl (st_qbuf env i) of
        None \<Rightarrow> None
      | Some a \<Rightarrow>
          if failed a then Some (-1, [Ioctl_qbuf i])
          else (case qbuf_all env k (Suc i) of
                  None \<Rightarrow> None
                | Some (r, calls) \<Rightarrow> Some (r, Ioctl_qbuf i # calls)))"

definition v4l2_start_streaming ::
  "stream_env \<Rightarrow> camera_context_t \<Rightarrow> (int \<times> cam_call list) option"
where
  "v4l2_start_streaming env ctx =
     (case qbuf_all env (nat (buffer_count ctx)) 0 of
        None \<Rightarrow> None
      | Some (r, calls) \<Rightarrow>
          if r \<noteq> 0 then Some (-1, calls)
          else (case xioctl (st_streamon env) of
                  None \<Rightarrow> None
                | Some a \<Rightarrow>
                    if failed a then Some (-1, calls @ [Ioctl_streamon])
                    else Some (0, calls @ [Ioctl_streamon])))"

text \<open>
  \<open>camera_start\<close>. After a successful \<open>pthread_create\<close> the function waits until the new
  worker has set \<open>thread_started\<close>; the model returns the context with the flag set. What
  the worker does from then on is \<open>capture_iteration\<close> below. \<open>Pthread_create\<close> in the
  call list is a creation that succeeded. \<open>v4l2_stop_streaming\<close> ignores the result of
  its \<open>xioctl\<close>.
\<close>

definition camera_start ::
  "stream_env \<Rightarrow> camera_context_t option \<Rightarrow> nat option \<Rightarrow> nat option \<Rightarrow>
   (camera_error_t \<times> camera_context_t option \<times> cam_call list) option"
where
  "camera_start env handle cb ud =
     (case handle of
        None \<Rightarrow> Some (CAMERA_ERROR_INVALID_PARAM, None, [])
      | Some ctx \<Rightarrow>
          if running ctx \<noteq> 0 then Some (CAMERA_OK, Some ctx, [])
          else
            let ctx1 = ctx\<lparr>callback := cb, user_data := ud, running := 1,
                           thread_started := 0, frame_count := 0, decode_count := 0\<rparr>
            in (case v4l2_start_streaming env ctx1 of
                  None \<Rightarrow> None
                | Some (r, calls) \<Rightarrow>
                    if r \<noteq> 0
                    then Some (CAMERA_ERROR_V4L2_INIT_FAILED, Some (ctx1\<lparr>running := 0\<rparr>), calls)
                    else if st_create_fifo_ok env
                    then Some (CAMERA_OK,
                               Some (ctx1\<lparr>capture_thread := st_thread env,
                                          thread_started := 1\<rparr>),
                               calls @ [Pthread_create (st_thread env)])
                    else if st_create_default_ok env
                    then Some (CAMERA_OK,
                               Some (ctx1\<lparr>capture_thread := st_thread env,
                                          thread_started := 1\<rparr>),
                               calls @ [Pthread_create (st_thread env)])
                    else (case xioctl (st_streamoff env) of
                            None \<Rightarrow> None
                          | Some a \<Rightarrow>
                              Some (CAMERA_ERROR_V4L2_INIT_FAILED,
                                    Some (ctx1\<lparr>running := 0\<rparr>),
                                    calls @ [Ioctl_streamoff]))))"

definition camera_stop ::
  "stream_env \<Rightarrow> camera_context_t option \<Rightarrow>
   (camera_error_t \<times> camera_context_t option \<times> cam_call list) option"
where
  "camera_stop env handle =
     (case handle of
        None \<Rightarrow> Some (CAMERA_ERROR_INVALID_PARAM, None, [])
      | Some ctx \<Rightarrow>
          if running ctx = 0 then Some (CAMERA_OK, Some ctx, [])
          else
            let ctx1 = ctx\<lparr>running := 0\<rparr>;
                joined = (thread_started ctx1 \<noteq> 0);
                ctx2 = (if joined then ctx1\<lparr>thread_started := 0\<rparr> else ctx1)
            in (case xioctl (st_streamoff env) of
                  None \<Rightarrow> None
                | Some a \<Rightarrow>
                    Some (CAMERA_OK, Some ctx2,
                          (if joined then [Pthread_join (capture_thread ctx1)] else [])
                          @ [Ioctl_streamoff])))"

definition camera_is_running :: "camera_context_t option \<Rightarrow> bool" where
  "camera_is_running handle = (case handle of None \<Rightarrow> False | Some ctx \<Rightarrow> running ctx \<noteq> 0)"

text \<open>\<open>ctx->bgra_buffer[k]\<close> as an object to read or write: undefined for an index
  outside the two slots and for a null slot.\<close>

definition bgra_slot :: "camera_context_t \<Rightarrow> int \<Rightarrow> byte list option" where
  "bgra_slot ctx k =
     (if 0 \<le> k \<and> k < 2 \<and> nat k < length (bgra_buffer ctx) then bgra_buffer ctx ! nat k
      else None)"

text \<open>
  \<open>camera_capture_frame\<close>. The call only gets past its guard while the capture worker is
  alive, and it reads \<open>bgra_write_idx\<close> (line 311) before it takes \<open>frame_mutex\<close>
  (line 313), so the worker may run between the two. \<open>handle\<close> is the context as the call
  finds it on entry, up to the read of the index; \<open>at_lock\<close> is the context as the call
  finds it once it holds the mutex, from which \<open>memcpy\<close> reads the slot. The two
  dimensions are read after the unlock; only \<open>v4l2_init\<close> writes them, so they are those
  of \<open>at_lock\<close>. \<open>bgra_data\<close> is the caller's buffer (\<open>None\<close> for \<open>NULL\<close>),
  \<open>buffer_size\<close> the size the caller announces for it; \<open>want_width\<close> and \<open>want_height\<close>
  say whether the two output pointers are non-null. The result is the error code, the
  caller's buffer afterwards, and the values stored through the output pointers.
\<close>

definition camera_capture_frame ::
  "camera_context_t option \<Rightarrow> camera_context_t \<Rightarrow> byte list option \<Rightarrow> int \<Rightarrow> bool \<Rightarrow> bool
   \<Rightarrow> int \<Rightarrow> (camera_error_t \<times> byte list option \<times> int option \<times> int option) option"
where
  "camera_capture_frame handle at_lock bgra_data buffer_size want_width want_height timeout_ms =
     (case handle of
        None \<Rightarrow> Some (CAMERA_ERROR_INVALID_PARAM, bgra_data, None, None)
      | Some ctx \<Rightarrow>
          (case bgra_data of
             None \<Rightarrow> Some (CAMERA_ERROR_INVALID_PARAM, None, None, None)
           | Some dst \<Rightarrow>
               if running ctx = 0 then Some (CAMERA_ERROR_NOT_RUNNING, Some dst, None, None)
               else if buffer_size < bgra_buffer_size ctx
               then Some (CAMERA_ERROR_INVALID_PARAM, Some dst, None, None)
               else if \<not> in_int_range (1 - bgra_write_idx ctx) then None
               else
                 let read_idx = 1 - bgra_write_idx ctx
                 in (case bgra_slot at_lock read_idx of
                       None \<Rightarrow> None
                     | Some src \<Rightarrow>
                         (case memcpy_elems dst src (bgra_buffer_size at_lock) of
                            None \<Rightarrow> None
                          | Some dst' \<Rightarrow>
                              Some (CAMERA_OK, Some dst',
                                    (if want_width then Some (width at_lock) else None),
                                    (if want_height then Some (height at_lock) else None))))))"

subsection \<open>Colour conversion on the CPU\<close>

text \<open>
  Modelled from the spec: the enumeration \<open>MppFrameFormat\<close> of the decoder library's
  header \<open>rockchip/mpp_frame.h\<close>, which is not part of the repository, as the value of
  \<open>format & MPP_FRAME_FMT_MASK\<close>: the four semiplanar variants that section 3 of the
  specification lists (NV12, NV21, NV16, NV61) and any other format.
\<close>

datatype MppFrameFormat =
    MPP_FMT_YUV420SP
  | MPP_FMT_YUV420SP_VU
  | MPP_FMT_YUV422SP
  | MPP_FMT_YUV422SP_VU
  | MPP_FMT_OTHER nat

text \<open>
  A buffer is the list of its bytes and a pointer into it is an offset. \<open>rd\<close> is the read
  \<open>p[k]\<close> of a \<open>uint8_t\<close> promoted to \<open>int\<close>, \<open>wr\<close> the store \<open>p[k] = v\<close> of an \<open>int\<close>
  converted to \<open>uint8_t\<close>. The index expressions of the source are \<open>int\<close> arithmetic: where
  one of them leaves the range of \<open>int\<close> the conversion has no defined result. Adding an
  index to a pointer is address arithmetic and is checked by \<open>rd\<close> and \<open>wr\<close>. The loop
  counters start at 0 and count up, so \<open>/\<close> on them is \<open>div\<close>.
\<close>

definition rd :: "byte list \<Rightarrow> int \<Rightarrow> int option" where
  "rd mem k = (if 0 \<le> k \<and> nat k < length mem then Some (uint (mem ! nat k)) else None)"

definition wr :: "byte list \<Rightarrow> int \<Rightarrow> int \<Rightarrow> byte list option" where
  "wr mem k v = (if 0 \<le> k \<and> nat k < length mem then Some (mem[nat k := word_of_int v]) else None)"

text \<open>\<open>r < 0 ? 0 : (r > 255 ? 255 : r)\<close>.\<close>

definition clamp255 :: "int \<Rightarrow> int" where
  "clamp255 r = (if r < 0 then 0 else if r > 255 then 255 else r)"

text \<open>
  The body of the inner loop, the same text in \<open>nv12_to_bgra_scalar\<close> and in
  \<open>nv16_to_bgra\<close>: \<open>y_row\<close>, \<open>uv_row\<close> are offsets into the YUV buffer, \<open>bgra_row\<close> is an
  offset into the BGRA buffer. \<open>>> 8\<close> on a negative \<open>int\<close> is the arithmetic shift of the
  target compiler, \<open>drop_bit 8\<close> on \<open>int\<close>.
\<close>

definition convert_pixel ::
  "byte list \<Rightarrow> int \<Rightarrow> int \<Rightarrow> int \<Rightarrow> int \<Rightarrow> byte list \<Rightarrow> byte list option"
where
  "convert_pixel yuv y_row uv_row bgra_row j bgra =
     (if \<not> in_int_range ((j div 2) * 2) \<or> \<not> in_int_range ((j div 2) * 2 + 1)
         \<or> \<not> in_int_range (j * 4) \<or> \<not> in_int_range (j * 4 + 3)
      then None
      else do {
       y \<leftarrow> rd yuv (y_row + j);
       ub \<leftarrow> rd yuv (uv_row + (j div 2) * 2);
       vb \<leftarrow> rd yuv (uv_row + (j div 2) * 2 + 1);
       let u = ub - 128;
       let v = vb - 128;
       let r = clamp255 (y + drop_bit 8 (v * 359));
       let g = clamp255 (y - drop_bit 8 (u * 88 + v * 183));
       let b = clamp255 (y + drop_bit 8 (u * 454));
       m0 \<leftarrow> wr bgra (bgra_row + j * 4 + 0) b;
       m1 \<leftarrow> wr m0 (bgra_row + j * 4 + 1) g;
       m2 \<leftarrow> wr m1 (bgra_row + j * 4 + 2) r;
       wr m2 (bgra_row + j * 4 + 3) 255
     })"

text \<open>\<open>for (j = ...; j < width; j++)\<close>: \<open>k\<close> iterations remain.\<close>

fun pixel_loop ::
  "byte list \<Rightarrow> int \<Rightarrow> int \<Rightarrow> int \<Rightarrow> nat \<Rightarrow> int \<Rightarrow> byte list \<Rightarrow> byte list option"
where
  "pixel_loop yuv y_row uv_row bgra_row 0 j bgra = Some bgra"
| "pixel_loop yuv y_row uv_row bgra_row (Suc k) j bgra =
     do {
       bgra' \<leftarrow> convert_pixel yuv y_row uv_row bgra_row j bgra;
       pixel_loop yuv y_row uv_row bgra_row k (j + 1) bgra'
     }"

text \<open>The outer loop of \<open>nv12_to_bgra_scalar\<close>: chroma row \<open>i / 2\<close>. The three row
  pointers are \<open>y_plane + i * y_stride\<close>, \<open>uv_plane + (i / 2) * uv_stride\<close> and
  \<open>bgra_data + i * width * 4\<close>.\<close>

fun nv12_rows ::
  "byte list \<Rightarrow> int \<Rightarrow> int \<Rightarrow> int \<Rightarrow> int \<Rightarrow> int \<Rightarrow> nat \<Rightarrow> int \<Rightarrow> byte list \<Rightarrow> byte list option"
where
  "nv12_rows yuv y_plane uv_plane w y_stride uv_stride 0 i bgra = Some bgra"
| "nv12_rows yuv y_plane uv_plane w y_stride uv_stride (Suc k) i bgra =
     (if \<not> in_int_range (i * y_stride) \<or> \<not> in_int_range ((i div 2) * uv_stride)
         \<or> \<not> in_int_range (i * w) \<or> \<not> in_int_range (i * w * 4)
      then None
      else do {
       bgra' \<leftarrow> pixel_loop yuv (y_plane + i * y_stride) (uv_plane + (i div 2) * uv_stride)
                  (i * w * 4) (nat w) 0 bgra;
       nv12_rows yuv y_plane uv_plane w y_stride uv_stride k (i + 1) bgra'
     })"

definition nv12_to_bgra_scalar ::
  "byte list \<Rightarrow> int \<Rightarrow> int \<Rightarrow> byte list \<Rightarrow> int \<Rightarrow> int \<Rightarrow> int \<Rightarrow> int \<Rightarrow> byte list option"
where
  "nv12_to_bgra_scalar yuv y_plane uv_plane bgra_data w h y_stride uv_stride =
     nv12_rows yuv y_plane uv_plane w y_stride uv_stride (nat h) 0 bgra_data"

text \<open>The outer loop of \<open>nv16_to_bgra\<close>: chroma row \<open>i\<close>.\<close>

fun nv16_rows ::
  "byte list \<Rightarrow> int \<Rightarrow> int \<Rightarrow> int \<Rightarrow> int \<Rightarrow> int \<Rightarrow> nat \<Rightarrow> int \<Rightarrow> byte list \<Rightarrow> byte list option"
where
  "nv16_rows yuv y_plane uv_plane w y_stride uv_stride 0 i bgra = Some bgra"
| "nv16_rows yuv y_plane uv_plane w y_stride uv_stride (Suc k) i bgra =
     (if \<not> in_int_range (i * y_stride) \<or> \<not> in_int_range (i * uv_stride)
         \<or> \<not> in_int_range (i * w) \<or> \<not> in_int_range (i * w * 4)
      then None
      else do {
       bgra' \<leftarrow> pixel_loop yuv (y_plane + i * y_stride) (uv_plane + i * uv_stride)
                  (i * w * 4) (nat w) 0 bgra;
       nv16_rows yuv y_plane uv_plane w y_stride uv_stride k (i + 1) bgra'
     })"

definition nv16_to_bgra ::
  "byte list \<Rightarrow> int \<Rightarrow> int \<Rightarrow> byte list \<Rightarrow> int \<Rightarrow> int \<Rightarrow> int \<Rightarrow> int \<Rightarrow> byte list option"
where
  "nv16_to_bgra yuv y_plane uv_plane bgra_data w h y_stride uv_stride =
     nv16_rows yuv y_plane uv_plane w y_stride uv_stride (nat h) 0 bgra_data"

text \<open>\<open>yuv_to_bgra_cpu\<close>: the Y plane starts the buffer, the chroma plane follows at
  \<open>hor_stride * ver_stride\<close>, and both strides are \<open>hor_stride\<close>.\<close>

definition yuv_to_bgra_cpu ::
  "byte list \<Rightarrow> byte list \<Rightarrow> int \<Rightarrow> int \<Rightarrow> int \<Rightarrow> int \<Rightarrow> MppFrameFormat \<Rightarrow> byte list option"
where
  "yuv_to_bgra_cpu yuv_data bgra_data w h hor_stride ver_stride fmt =
     (if \<not> in_int_range (hor_stride * ver_stride) then None
      else
      let y_plane = 0; uv_plane = hor_stride * ver_stride in
      case fmt of
        MPP_FMT_YUV420SP \<Rightarrow>
          nv12_to_bgra_scalar yuv_data y_plane uv_plane bgra_data w h hor_stride hor_stride
      | MPP_FMT_YUV420SP_VU \<Rightarrow>
          nv12_to_bgra_scalar yuv_data y_plane uv_plane bgra_data w h hor_stride hor_stride
      | MPP_FMT_YUV422SP \<Rightarrow>
          nv16_to_bgra yuv_data y_plane uv_plane bgra_data w h hor_stride hor_stride
      | MPP_FMT_YUV422SP_VU \<Rightarrow>
          nv16_to_bgra yuv_data y_plane uv_plane bgra_data w h hor_stride hor_stride
      | MPP_FMT_OTHER _ \<Rightarrow>
          nv12_to_bgra_scalar yuv_data y_plane uv_plane bgra_data w h hor_stride hor_stride)"

text \<open>
  The conversion as section 4.C of the specification words it, for one pixel with luma \<open>Y\<close>
  and chroma \<open>U\<close> (Cb) and \<open>V\<close> (Cr): the four bytes B, G, R, A. The shift is written as
  the division by 256 that rounds down.
\<close>

definition saturate :: "int \<Rightarrow> int" where
  "saturate x = max 0 (min 255 x)"

definition spec_bgra :: "int \<Rightarrow> int \<Rightarrow> int \<Rightarrow> byte list" where
  "spec_bgra Y U V =
     [word_of_int (saturate (Y + ((U - 128) * 454) div 256)),
      word_of_int (saturate (Y - ((U - 128) * 88 + (V - 128) * 183) div 256)),
      word_of_int (saturate (Y + ((V - 128) * 359) div 256)),
      255]"

text \<open>The byte of a buffer at an offset, as a number; used to name the inputs of a pixel.\<close>

definition byte_at :: "byte list \<Rightarrow> int \<Rightarrow> int" where
  "byte_at mem k = uint (mem ! nat k)"

subsection \<open>\<open>decode_mjpeg_to_bgra_fast\<close>\<close>

text \<open>
  What the decoder library answers during one decode: whether each call returns \<open>MPP_OK\<close>
  (for the two \<open>dequeue\<close> calls: and delivers a task), and the frame found in the output
  task, if any. A frame carries the bytes of its buffer (\<open>None\<close> when
  \<open>mpp_frame_get_buffer\<close> is null), its error word, its geometry as \<open>RK_U32\<close> and its
  format.
\<close>

record mpp_frame =
  fr_buffer :: "byte list option"
  fr_errinfo :: u32
  fr_width :: u32
  fr_height :: u32
  fr_hor_stride :: u32
  fr_ver_stride :: u32
  fr_fmt :: MppFrameFormat

record decode_env =
  de_packet_init_ok :: bool
  de_frame_init_ok :: bool
  de_poll_input_ok :: bool
  de_dequeue_input_ok :: bool
  de_enqueue_input_ok :: bool
  de_poll_output_ok :: bool
  de_dequeue_output_ok :: bool
  de_out_frame :: "mpp_frame option"

text \<open>
  \<open>mjpeg_data\<close> is the mapped V4L2 buffer the packet is copied from, \<open>mjpeg_size\<close> the
  number of bytes. The copy into the packet buffer is undefined when the slot index is
  outside \<open>decode_bufs\<close>, the slot has no packet buffer, or the source is not a mapping of
  at least \<open>mjpeg_size\<close> bytes. The result is the return value and the context.
\<close>

definition decode_mjpeg_to_bgra_fast ::
  "decode_env \<Rightarrow> camera_context_t \<Rightarrow> v4l2_buffer_t \<Rightarrow> nat \<Rightarrow> (int \<times> camera_context_t) option"
where
  "decode_mjpeg_to_bgra_fast env ctx0 mjpeg_data mjpeg_size =
     (let buf_idx = current_buf_idx ctx0;
          ctx = ctx0\<lparr>current_buf_idx := (current_buf_idx ctx0 + 1) mod MPP_BUFFER_COUNT\<rparr>
      in if buf_idx < 0 \<or> length (decode_bufs ctx) \<le> nat buf_idx then None
         else
           let dec_buf = decode_bufs ctx ! nat buf_idx
           in if mjpeg_size > pkt_buf_size dec_buf then Some (-1, ctx)
              else if pkt_buf dec_buf = None
                      \<or> (case buf_start mjpeg_data of
                            Map_at a \<Rightarrow> buf_length mjpeg_data < mjpeg_size
                          | _ \<Rightarrow> True)
              then None
              else if \<not> de_packet_init_ok env then Some (-1, ctx)
              else if \<not> de_frame_init_ok env then Some (-1, ctx)
              else if \<not> de_poll_input_ok env then Some (-1, ctx)
              else if \<not> de_dequeue_input_ok env then Some (-1, ctx)
              else if \<not> de_enqueue_input_ok env then Some (-1, ctx)
              else if \<not> de_poll_output_ok env then Some (-1, ctx)
              else if \<not> de_dequeue_output_ok env then Some (-1, ctx)
              else
                (case de_out_frame env of
                   None \<Rightarrow> Some (-1, ctx)
                 | Some fr \<Rightarrow>
                     (case fr_buffer fr of
                        None \<Rightarrow> Some (-1, ctx)
                      | Some yuv_data \<Rightarrow>
                          if fr_errinfo fr \<noteq> 0 then Some (-1, ctx)
                          else
                            let w = sint (fr_width fr);
                                h = sint (fr_height fr);
                                hor_stride = sint (fr_hor_stride fr);
                                ver_stride = sint (fr_ver_stride fr);
                                write_idx = bgra_write_idx ctx
                            in (case bgra_slot ctx write_idx of
                                  None \<Rightarrow> None
                                | Some out_buf \<Rightarrow>
                                    (case yuv_to_bgra_cpu yuv_data out_buf w h hor_stride
                                            ver_stride (fr_fmt fr) of
                                       None \<Rightarrow> None
                                     | Some converted \<Rightarrow>
                                         if \<not> in_int_range (decode_count ctx + 1) then None
                                         else
                                           Some (0,
                                             ctx\<lparr>bgra_buffer := (bgra_buffer ctx)
                                                    [nat write_idx := Some converted],
                                                 bgra_write_idx := 1 - write_idx,
                                                 decode_count := decode_count ctx + 1\<rparr>))))))"

subsection \<open>The capture worker\<close>

text \<open>
  One pass through the body of \<open>while (ctx->running)\<close> in \<open>capture_thread_func\<close>. The
  environment gives the result of \<open>select\<close> with its \<open>errno\<close>, the answers to the two
  \<open>xioctl\<close> calls, the \<open>index\<close> and \<open>bytesused\<close> fields the kernel fills in on
  \<open>VIDIOC_DQBUF\<close>, and the decoder's answers. The result says how the pass leaves the
  loop (\<open>continue\<close> and the end of the body both lead back to the loop test).
\<close>

datatype loop_exit = Loop_again | Loop_break

record iter_env =
  it_select :: int
  it_errno :: errno_t
  it_dqbuf :: "ioctl_answer list"
  it_index :: u32
  it_bytesused :: u32
  it_decode :: decode_env
  it_qbuf :: "ioctl_answer list"

definition capture_iteration ::
  "iter_env \<Rightarrow> camera_context_t \<Rightarrow> (loop_exit \<times> camera_context_t \<times> cam_call list) option"
where
  "capture_iteration env ctx =
     (if it_select env = -1
      then (if it_errno env = EINTR then Some (Loop_again, ctx, [])
            else Some (Loop_break, ctx, []))
      else if it_select env = 0 then Some (Loop_again, ctx, [])
      else
        (case xioctl (it_dqbuf env) of
           None \<Rightarrow> None
         | Some a \<Rightarrow>
             if failed a
             then (if a = Answer_err EAGAIN then Some (Loop_again, ctx, [Ioctl_dqbuf])
                   else Some (Loop_break, ctx, [Ioctl_dqbuf]))
             else if \<not> in_int_range (frame_count ctx + 1) then None
             else
               let ctx1 = ctx\<lparr>frame_count := frame_count ctx + 1\<rparr>;
                   decoded =
                     (if it_bytesused env > 0
                      then if length (v4l2_buffers ctx1) \<le> unat (it_index env) then None
                           else
                             (case decode_mjpeg_to_bgra_fast (it_decode env) ctx1
                                     (v4l2_buffers ctx1 ! unat (it_index env))
                                     (unat (it_bytesused env)) of
                                None \<Rightarrow> None
                              | Some (decode_ret, ctx2) \<Rightarrow>
                                  if decode_ret = 0
                                  then (case callback ctx2 of
                                          None \<Rightarrow> Some (ctx2, [])
                                        | Some cb \<Rightarrow>
                                            if \<not> in_int_range (1 - bgra_write_idx ctx2)
                                               \<or> \<not> in_int_range (width ctx2 * 4)
                                            then None
                                            else
                                            Some (ctx2,
                                              [Invoke_callback cb (user_data ctx2)
                                                 (1 - bgra_write_idx ctx2) (width ctx2)
                                                 (height ctx2) (width ctx2 * 4)]))
                                  else Some (ctx2, []))
                      else Some (ctx1, []))
               in (case decoded of
                     None \<Rightarrow> None
                   | Some (ctx3, calls) \<Rightarrow>
                       (case xioctl (it_qbuf env) of
                          None \<Rightarrow> None
                        | Some b \<Rightarrow>
                            Some (if failed b then Loop_break else Loop_again, ctx3,
                                  [Ioctl_dqbuf] @ calls
                                  @ [Ioctl_qbuf (unat (it_index env))])))))"

text \<open>
  The loop of the worker. \<open>ctx->running\<close> is volatile and cleared by \<open>camera_stop\<close> on
  another thread; each element of the list is one loop test: the value of \<open>running\<close> the
  test reads and the environment of the pass that follows. The worker has not come to its
  end when the list runs out.
\<close>

fun capture_loop ::
  "(bool \<times> iter_env) list \<Rightarrow> camera_context_t \<Rightarrow> (camera_context_t \<times> cam_call list) option"
where
  "capture_loop [] ctx = None"
| "capture_loop ((still_running, env) # later) ctx =
     (if \<not> still_running then Some (ctx, [])
      else
        (case capture_iteration env ctx of
           None \<Rightarrow> None
         | Some (Loop_break, ctx', calls) \<Rightarrow> Some (ctx', calls)
         | Some (Loop_again, ctx', calls) \<Rightarrow>
             (case capture_loop later ctx' of
                None \<Rightarrow> None
              | Some (ctx'', calls') \<Rightarrow> Some (ctx'', calls @ calls'))))"

subsection \<open>The frame exchange under interleaving\<close>

text \<open>
  The statements of the capture worker (\<open>decode_mjpeg_to_bgra_fast\<close>) and of a caller of
  \<open>camera_capture_frame\<close> that touch the double buffer, as atomic steps of two threads
  over the shared \<open>bgra_write_idx\<close> and \<open>frame_mutex\<close>.

  The writer: \<open>write_idx = ctx->bgra_write_idx\<close> and the start of the conversion into
  \<open>bgra_buffer[write_idx]\<close>; the end of the conversion; \<open>pthread_mutex_lock\<close>;
  \<open>ctx->bgra_write_idx = 1 - write_idx\<close>; \<open>pthread_mutex_unlock\<close>.

  The reader: \<open>read_idx = 1 - ctx->bgra_write_idx\<close>; \<open>pthread_mutex_lock\<close> and the
  start of \<open>memcpy\<close> from \<open>bgra_buffer[read_idx]\<close>; the end of \<open>memcpy\<close>;
  \<open>pthread_mutex_unlock\<close>.
\<close>

datatype thread_id = Reader | Writer

datatype reader_pc = R_idle | R_started | R_in_memcpy | R_copied

datatype writer_pc = W_idle | W_in_convert | W_converted | W_locked | W_toggled

record exchange =
  ex_write_idx :: int
  ex_mutex :: "thread_id option"
  ex_rpc :: reader_pc
  ex_read_idx :: int
  ex_wpc :: writer_pc
  ex_local_write_idx :: int

definition exchange_init :: exchange where
  "exchange_init =
     \<lparr>ex_write_idx = 0, ex_mutex = None, ex_rpc = R_idle, ex_read_idx = 0,
      ex_wpc = W_idle, ex_local_write_idx = 0\<rparr>"

text \<open>A step of a thread; \<open>None\<close> when the thread is blocked on the mutex.\<close>

fun writer_step :: "exchange \<Rightarrow> exchange option" where
  "writer_step s =
     (case ex_wpc s of
        W_idle \<Rightarrow> Some (s\<lparr>ex_local_write_idx := ex_write_idx s, ex_wpc := W_in_convert\<rparr>)
      | W_in_convert \<Rightarrow> Some (s\<lparr>ex_wpc := W_converted\<rparr>)
      | W_converted \<Rightarrow>
          (if ex_mutex s = None then Some (s\<lparr>ex_mutex := Some Writer, ex_wpc := W_locked\<rparr>)
           else None)
      | W_locked \<Rightarrow> Some (s\<lparr>ex_write_idx := 1 - ex_local_write_idx s, ex_wpc := W_toggled\<rparr>)
      | W_toggled \<Rightarrow> Some (s\<lparr>ex_mutex := None, ex_wpc := W_idle\<rparr>))"

fun reader_step :: "exchange \<Rightarrow> exchange option" where
  "reader_step s =
     (case ex_rpc s of
        R_idle \<Rightarrow> Some (s\<lparr>ex_read_idx := 1 - ex_write_idx s, ex_rpc := R_started\<rparr>)
      | R_started \<Rightarrow>
          (if ex_mutex s = None then Some (s\<lparr>ex_mutex := Some Reader, ex_rpc := R_in_memcpy\<rparr>)
           else None)
      | R_in_memcpy \<Rightarrow> Some (s\<lparr>ex_rpc := R_copied\<rparr>)
      | R_copied \<Rightarrow> Some (s\<lparr>ex_mutex := None, ex_rpc := R_idle\<rparr>))"

fun exchange_run :: "thread_id list \<Rightarrow> exchange \<Rightarrow> exchange option" where
  "exchange_run [] s = Some s"
| "exchange_run (Reader # sched) s =
     (case reader_step s of None \<Rightarrow> None | Some s' \<Rightarrow> exchange_run sched s')"
| "exchange_run (Writer # sched) s =
     (case writer_step s of None \<Rightarrow> None | Some s' \<Rightarrow> exchange_run sched s')"

text \<open>The reader is copying out of the slot the writer is converting into.\<close>

definition same_slot_in_use :: "exchange \<Rightarrow> bool" where
  "same_slot_in_use s \<longleftrightarrow>
     ex_rpc s = R_in_memcpy \<and> ex_wpc s = W_in_convert \<and> ex_read_idx s = ex_local_write_idx s"

text \<open>
  The reader as section 4.D of the specification words it: the publish slot is read
  \<^emph>\<open>under\<close> the mutex. Only the order of the first two steps differs from
  \<open>reader_step\<close>.
\<close>

fun spec_reader_step :: "exchange \<Rightarrow> exchange option" where
  "spec_reader_step s =
     (case ex_rpc s of
        R_idle \<Rightarrow>
          (if ex_mutex s = None then Some (s\<lparr>ex_mutex := Some Reader, ex_rpc := R_started\<rparr>)
           else None)
      | R_started \<Rightarrow> Some (s\<lparr>ex_read_idx := 1 - ex_write_idx s, ex_rpc := R_in_memcpy\<rparr>)
      | R_in_memcpy \<Rightarrow> Some (s\<lparr>ex_rpc := R_copied\<rparr>)
      | R_copied \<Rightarrow> Some (s\<lparr>ex_mutex := None, ex_rpc := R_idle\<rparr>))"

fun spec_exchange_run :: "thread_id list \<Rightarrow> exchange \<Rightarrow> exchange option" where
  "spec_exchange_run [] s = Some s"
| "spec_exchange_run (Reader # sched) s =
     (case spec_reader_step s of None \<Rightarrow> None | Some s' \<Rightarrow> spec_exchange_run sched s')"
| "spec_exchange_run (Writer # sched) s =
     (case writer_step s of None \<Rightarrow> None | Some s' \<Rightarrow> spec_exchange_run sched s')"

section \<open>Auxiliary notions for the proofs\<close>

text \<open>Four bytes stored at offset \<open>p\<close>, the pixel the code computes, the pixel of a row
  position, and the two outer loops as one loop over the chroma row function.\<close>

definition put4 :: "byte list \<Rightarrow> nat \<Rightarrow> byte list \<Rightarrow> byte list" where
  "put4 mem p px = mem[p := px ! 0, p + 1 := px ! 1, p + 2 := px ! 2, p + 3 := px ! 3]"

definition code_bgra :: "int \<Rightarrow> int \<Rightarrow> int \<Rightarrow> byte list" where
  "code_bgra y ub vb =
     [word_of_int (clamp255 (y + drop_bit 8 ((ub - 128) * 454))),
      word_of_int (clamp255 (y - drop_bit 8 ((ub - 128) * 88 + (vb - 128) * 183))),
      word_of_int (clamp255 (y + drop_bit 8 ((vb - 128) * 359))),
      255]"

definition px_of :: "byte list \<Rightarrow> int \<Rightarrow> int \<Rightarrow> int \<Rightarrow> byte list" where
  "px_of yuv yr uvr j =
     spec_bgra (byte_at yuv (yr + j)) (byte_at yuv (uvr + (j div 2) * 2))
               (byte_at yuv (uvr + (j div 2) * 2 + 1))"

fun rows_loop ::
  "(int \<Rightarrow> int) \<Rightarrow> byte list \<Rightarrow> int \<Rightarrow> int \<Rightarrow> int \<Rightarrow> int \<Rightarrow> int \<Rightarrow> nat \<Rightarrow> int \<Rightarrow> byte list
   \<Rightarrow> byte list option"
where
  "rows_loop crow yuv y_plane uv_plane w y_stride uv_stride 0 i bgra = Some bgra"
| "rows_loop crow yuv y_plane uv_plane w y_stride uv_stride (Suc k) i bgra =
     (if \<not> in_int_range (i * y_stride) \<or> \<not> in_int_range (crow i * uv_stride)
         \<or> \<not> in_int_range (i * w) \<or> \<not> in_int_range (i * w * 4)
      then None
      else do {
       bgra' \<leftarrow> pixel_loop yuv (y_plane + i * y_stride) (uv_plane + crow i * uv_stride)
                  (i * w * 4) (nat w) 0 bgra;
       rows_loop crow yuv y_plane uv_plane w y_stride uv_stride k (i + 1) bgra'
     })"

text \<open>The invariant of the frame exchange when the reader takes its index under the
  mutex.\<close>

definition exchange_inv :: "exchange \<Rightarrow> bool" where
  "exchange_inv s \<longleftrightarrow>
     (ex_mutex s = Some Reader \<longleftrightarrow> ex_rpc s \<noteq> R_idle)
     \<and> (ex_mutex s = Some Writer \<longleftrightarrow> ex_wpc s = W_locked \<or> ex_wpc s = W_toggled)
     \<and> (ex_wpc s = W_in_convert \<or> ex_wpc s = W_converted \<or> ex_wpc s = W_locked
          \<longrightarrow> ex_local_write_idx s = ex_write_idx s)
     \<and> (ex_rpc s = R_in_memcpy \<or> ex_rpc s = R_copied
          \<longrightarrow> ex_read_idx s = 1 - ex_write_idx s)"

text \<open>
  What a pass of the capture worker needs in order to have a result. \<open>chroma_last\<close> is the
  last chroma row that the conversion of a frame of height \<open>h\<close> reads. \<open>frame_fits\<close> says
  that a decoded frame and a BGRA slot are large enough for the geometry of the frame, with
  every offset inside \<open>int\<close>. \<open>decoder_delivers\<close> is the frame the decoder hands over when
  every library call of the decode answers \<open>MPP_OK\<close> and the frame has a buffer and no
  error flag. \<open>decode_succeeds\<close> says that the dequeued bytes fit the packet buffer and that
  the decoder delivers. \<open>pass_defined\<close> collects the conditions under which no statement of
  a pass reads or writes outside an object or leaves \<open>int\<close>, and the retries of
  \<open>VIDIOC_QBUF\<close> end.
\<close>

definition chroma_last :: "MppFrameFormat \<Rightarrow> int \<Rightarrow> int" where
  "chroma_last fmt h =
     (case fmt of
        MPP_FMT_YUV422SP \<Rightarrow> h - 1
      | MPP_FMT_YUV422SP_VU \<Rightarrow> h - 1
      | _ \<Rightarrow> (h - 1) div 2)"

definition frame_fits :: "mpp_frame \<Rightarrow> byte list \<Rightarrow> byte list \<Rightarrow> bool" where
  "frame_fits fr yuv out \<longleftrightarrow>
     (let w = sint (fr_width fr); h = sint (fr_height fr);
          hs = sint (fr_hor_stride fr); vs = sint (fr_ver_stride fr)
      in 0 < w \<and> 0 < h \<and> 0 \<le> hs \<and> 0 \<le> vs
         \<and> hs * vs \<le> 2147483647 \<and> (h - 1) * hs \<le> 2147483647 \<and> w * h * 4 \<le> 2147483647
         \<and> nat (w * h * 4) \<le> length out
         \<and> nat ((h - 1) * hs + w) \<le> length yuv
         \<and> nat (hs * vs + chroma_last (fr_fmt fr) h * hs + ((w - 1) div 2) * 2 + 2)
             \<le> length yuv)"

definition decoder_delivers :: "decode_env \<Rightarrow> mpp_frame option" where
  "decoder_delivers env =
     (if de_packet_init_ok env \<and> de_frame_init_ok env \<and> de_poll_input_ok env
         \<and> de_dequeue_input_ok env \<and> de_enqueue_input_ok env \<and> de_poll_output_ok env
         \<and> de_dequeue_output_ok env
      then (case de_out_frame env of
              None \<Rightarrow> None
            | Some fr \<Rightarrow> if fr_buffer fr \<noteq> None \<and> fr_errinfo fr = 0 then Some fr else None)
      else None)"

definition decode_succeeds :: "iter_env \<Rightarrow> camera_context_t \<Rightarrow> bool" where
  "decode_succeeds env ctx \<longleftrightarrow>
     it_bytesused env \<noteq> 0
     \<and> unat (it_bytesused env) \<le> pkt_buf_size (decode_bufs ctx ! nat (current_buf_idx ctx))
     \<and> decoder_delivers (it_decode env) \<noteq> None"

definition pass_defined :: "iter_env \<Rightarrow> camera_context_t \<Rightarrow> bool" where
  "pass_defined env ctx \<longleftrightarrow>
     in_int_range (frame_count ctx + 1)
     \<and> xioctl (it_qbuf env) \<noteq> None
     \<and> (it_bytesused env = 0
        \<or> (unat (it_index env) < length (v4l2_buffers ctx)
            \<and> 0 \<le> current_buf_idx ctx
            \<and> nat (current_buf_idx ctx) < length (decode_bufs ctx)
            \<and> (unat (it_bytesused env)
                  \<le> pkt_buf_size (decode_bufs ctx ! nat (current_buf_idx ctx)) \<longrightarrow>
                pkt_buf (decode_bufs ctx ! nat (current_buf_idx ctx)) \<noteq> None
                \<and> (case buf_start (v4l2_buffers ctx ! unat (it_index env)) of
                      Map_at a \<Rightarrow>
                        unat (it_bytesused env)
                          \<le> buf_length (v4l2_buffers ctx ! unat (it_index env))
                    | _ \<Rightarrow> False)
                \<and> (case decoder_delivers (it_decode env) of
                      None \<Rightarrow> True
                    | Some fr \<Rightarrow>
                        (case fr_buffer fr of
                           None \<Rightarrow> False
                         | Some yuv \<Rightarrow>
                             (case bgra_slot ctx (bgra_write_idx ctx) of
                                None \<Rightarrow> False
                              | Some out \<Rightarrow> frame_fits fr yuv out))
                        \<and> in_int_range (decode_count ctx + 1)
                        \<and> (callback ctx \<noteq> None \<longrightarrow> in_int_range (width ctx * 4))))))"

section \<open>Concrete contexts used to exercise the model\<close>

definition demo_create_env :: create_env where
  "demo_create_env =
     \<lparr>ce_global_init_ok = True, ce_calloc_ok = True, ce_malloc_ok = True,
      ce_pipeline = Some 1, ce_parse_error = False, ce_video_sink = Some 2,
      ce_app_sink = Some 3, ce_overlay = Some 4, ce_bus = Some 5\<rparr>"

definition demo_config :: gst_player_config_t where
  "demo_config =
     \<lparr>cfg_device = Some ''/dev/video12'', cfg_width = 640, cfg_height = 480, cfg_fps = 30,
      cfg_format = GST_PLAYER_FORMAT_MJPEG, cfg_use_hardware_decode = False,
      cfg_use_rga = False, cfg_face_detect_fps = 5, cfg_face_detect_width = 320,
      cfg_face_detect_height = 240\<rparr>"

text \<open>The context that \<open>gst_player_create\<close> returns for \<open>demo_config\<close>.\<close>

definition demo_player :: gst_player_context_t where
  "demo_player =
     \<lparr>pipeline = Some 1, video_sink = Some 2, app_sink = Some 3, overlay = Some 4, bus = Some 5,
      device = ''/dev/video12'', p_width = 640, p_height = 480, p_fps = 30,
      format = GST_PLAYER_FORMAT_MJPEG, use_hardware_decode = False, x11_window_id = 0,
      frame_callback = None, callback_user_data = None,
      face_boxes = replicate 10 zero_box, face_box_count = 0,
      face_source_width = 320, face_source_height = 240,
      video_width = 0, video_height = 0, p_running = False, playing = False,
      face_detect_width = 320, face_detect_height = 240, p_frame_count = 0, start_time = 0\<rparr>"

text \<open>A 40 by 40 box with score 0.75 (the singles \<open>0x42200000\<close> and \<open>0x3F400000\<close>)
  whose centre coordinates are both the single \<open>k\<close>.\<close>

definition demo_box :: "float32 \<Rightarrow> gst_face_box_t" where
  "demo_box k = \<lparr>center_x = k, center_y = k, box_width = 0x42200000, box_height = 0x42200000,
                 score = 0x3F400000\<rparr>"

definition demo_boxes :: "gst_face_box_t list" where
  "demo_boxes = [demo_box 1, demo_box 2, demo_box 3, demo_box 4, demo_box 5, demo_box 6,
                 demo_box 7, demo_box 8, demo_box 9, demo_box 10, demo_box 11, demo_box 12]"

text \<open>One detection, the video width known and the video height still unknown.\<close>

definition demo_draw_ctx :: gst_player_context_t where
  "demo_draw_ctx =
     demo_player\<lparr>face_boxes := (face_boxes demo_player)[0 := demo_box 0x43200000],
                 face_box_count := 1, video_width := 640, video_height := 0\<rparr>"

text \<open>A 2 by 2 frame with stride 2 (four luma bytes, then chroma), a zeroed BGRA buffer of
  2 by 2 pixels, and a 2 by 2 NV21 frame of one saturated red: luma 128, then Cr = 240
  first and Cb = 16 second.\<close>

definition demo_yuv :: "byte list" where
  "demo_yuv = [10, 20, 30, 40, 240, 16, 90, 200]"

definition black16 :: "byte list" where
  "black16 = [0, 0, 0, 0, 0, 0, 0, 0, 0, 0, 0, 0, 0, 0, 0, 0]"

definition nv21_red :: "byte list" where
  "nv21_red = [128, 128, 128, 128, 240, 16]"

text \<open>A capture context for 2 by 2 frames as \<open>camera_init\<close> leaves it, with the second
  BGRA slot already holding a frame; the environment of a start in which the real-time
  thread is refused and the default one is granted; and the context after that start.\<close>

definition pattern16 :: "byte list" where
  "pattern16 = [1, 2, 3, 255, 4, 5, 6, 255, 7, 8, 9, 255, 10, 11, 12, 255]"

definition demo_camera :: camera_context_t where
  "demo_camera =
     \<lparr>v4l2_fd = 3,
      v4l2_buffers = replicate 4 \<lparr>buf_start = Map_at 4096, buf_length = 8\<rparr>,
      buffer_count = 4, width = 2, height = 2, fps = 30,
      mpp_ctx = Some 1, mpp_mpi = Some 2, frm_grp = Some 3,
      decode_bufs = replicate 8 \<lparr>pkt_buf = Some 7, frm_buf = Some 8,
                                 pkt_buf_size = 4, frm_buf_size = 1024\<rparr>,
      current_buf_idx = 0, mpp_initialized = 1,
      bgra_buffer = [Some black16, Some pattern16], bgra_write_idx = 0, bgra_buffer_size = 16,
      capture_thread = 0, running = 0, thread_started = 0,
      callback = None, user_data = None, frame_count = 0, decode_count = 0\<rparr>"

definition demo_stream_env :: stream_env where
  "demo_stream_env =
     \<lparr>st_qbuf = (\<lambda>i. [Answer_err EINTR, Answer_ok]), st_streamon = [Answer_ok],
      st_streamoff = [Answer_ok], st_create_fifo_ok = False, st_create_default_ok = True,
      st_thread = 77\<rparr>"

definition demo_camera_started :: camera_context_t where
  "demo_camera_started =
     demo_camera\<lparr>callback := Some 5, user_data := Some 6, running := 1, thread_started := 1,
                 capture_thread := 77\<rparr>"

definition demo_start_env :: start_env where
  "demo_start_env = \<lparr>se_time_us = 1000000, se_state_change_failure = False\<rparr>"

definition demo_player_playing :: gst_player_context_t where
  "demo_player_playing = demo_player\<lparr>p_running := True, playing := True, start_time := 1000000\<rparr>"

text \<open>One pass of the worker: a 2 by 2 NV21 frame decoded without error, the same frame
  flagged by the decoder's error word, and a dequeued buffer with no bytes.\<close>

definition blue16 :: "byte list" where
  "blue16 = [255, 170, 0, 255, 255, 170, 0, 255, 255, 170, 0, 255, 255, 170, 0, 255]"

definition demo_frame :: mpp_frame where
  "demo_frame =
     \<lparr>fr_buffer = Some nv21_red, fr_errinfo = 0, fr_width = 2, fr_height = 2,
      fr_hor_stride = 2, fr_ver_stride = 2, fr_fmt = MPP_FMT_YUV420SP_VU\<rparr>"

definition demo_decode_env :: decode_env where
  "demo_decode_env =
     \<lparr>de_packet_init_ok = True, de_frame_init_ok = True, de_poll_input_ok = True,
      de_dequeue_input_ok = True, de_enqueue_input_ok = True, de_poll_output_ok = True,
      de_dequeue_output_ok = True, de_out_frame = Some demo_frame\<rparr>"

definition demo_iter_env :: iter_env where
  "demo_iter_env =
     \<lparr>it_select = 1, it_errno = EINTR, it_dqbuf = [Answer_ok], it_index = 2,
      it_bytesused = 4, it_decode = demo_decode_env, it_qbuf = [Answer_ok]\<rparr>"

definition corrupt_iter_env :: iter_env where
  "corrupt_iter_env =
     demo_iter_env\<lparr>it_decode :=
       demo_decode_env\<lparr>de_out_frame := Some (demo_frame\<lparr>fr_errinfo := 1\<rparr>)\<rparr>\<rparr>"

definition empty_iter_env :: iter_env where
  "empty_iter_env = demo_iter_env\<lparr>it_bytesused := 0\<rparr>"

text \<open>A device that is asked for 2 by 2 and answers 4 by 2, the context \<open>camera_init\<close>
  builds for it, and a 4 by 2 frame as the decoder then delivers it.\<close>

definition demo_v4l2_env :: v4l2_env where
  "demo_v4l2_env =
     \<lparr>ve_open_fd = 3, ve_querycap = [Answer_ok], ve_capabilities = 0x04000001,
      ve_s_fmt = [Answer_ok], ve_pixelformat = 0x47504A4D, ve_width = 4, ve_height = 2,
      ve_s_parm = [Answer_err (E_other 22)], ve_reqbufs = [Answer_ok], ve_req_count = 4,
      ve_querybuf = (\<lambda>i. [Answer_ok]), ve_buf_length = (\<lambda>i. 8),
      ve_mmap = (\<lambda>i. Map_at 4096)\<rparr>"

definition demo_mpp_env :: mpp_init_env where
  "demo_mpp_env =
     \<lparr>me_create = Some (1, 2), me_init_ok = True, me_group = Some 3,
      me_pkt_buffer = (\<lambda>i. Some 7), me_frm_buffer = (\<lambda>i. Some 8)\<rparr>"

definition demo_init_env :: init_env where
  "demo_init_env =
     \<lparr>ie_calloc_ok = True, ie_v4l2 = demo_v4l2_env, ie_mpp = demo_mpp_env,
      ie_malloc0 = Some black16, ie_malloc1 = Some black16\<rparr>"

definition mismatch_camera :: camera_context_t where
  "mismatch_camera =
     \<lparr>v4l2_fd = 3,
      v4l2_buffers = replicate 4 \<lparr>buf_start = Map_at 4096, buf_length = 8\<rparr>,
      buffer_count = 4, width = 4, height = 2, fps = 30,
      mpp_ctx = Some 1, mpp_mpi = Some 2, frm_grp = Some 3,
      decode_bufs = replicate 8 \<lparr>pkt_buf = Some 7, frm_buf = Some 8,
                                 pkt_buf_size = 8, frm_buf_size = 1024\<rparr>,
      current_buf_idx = 0, mpp_initialized = 1,
      bgra_buffer = [Some black16, Some black16], bgra_write_idx = 0, bgra_buffer_size = 16,
      capture_thread = 0, running = 0, thread_started = 0,
      callback = None, user_data = None, frame_count = 0, decode_count = 0\<rparr>"

definition frame_4x2 :: mpp_frame where
  "frame_4x2 =
     \<lparr>fr_buffer = Some [128, 128, 128, 128, 128, 128, 128, 128, 16, 240, 16, 240],
      fr_errinfo = 0, fr_width = 4, fr_height = 2,
      fr_hor_stride = 4, fr_ver_stride = 2, fr_fmt = MPP_FMT_YUV420SP\<rparr>"

text \<open>A 2 by 2 frame with stride 2 whose two chroma bytes differ in every chroma row, and
  the context after the worker has decoded \<open>demo_frame\<close> into slot 0 of
  \<open>demo_camera_started\<close> and published it.\<close>

definition vu_frame :: "byte list" where
  "vu_frame = [50, 100, 150, 200, 200, 60, 180, 90]"


section \<open>Properties of the detection store and of the overlay\<close>

lemma memcpy_elems_Some:
  "0 \<le> n \<Longrightarrow> nat n \<le> length src \<Longrightarrow> nat n \<le> length dst \<Longrightarrow>
   memcpy_elems dst src n = Some (take (nat n) src @ drop (nat n) dst)"
  by (simp add: memcpy_elems_def)

lemma demo_create: "gst_player_create demo_create_env (Some demo_config) = Some demo_player"
  by (simp add: gst_player_create_def demo_create_env_def demo_config_def demo_player_def
        build_pipeline_string_ok_def MAX_FACE_BOXES_def Let_def)

lemma demo_run:
  "player_run [Op_set_face_boxes (Some demo_boxes) 12 0 0] demo_player
     = Some (demo_player\<lparr>face_boxes := take 10 demo_boxes, face_box_count := 10\<rparr>)"
  by (simp add: gst_player_set_face_boxes_def memcpy_elems_def demo_player_def demo_boxes_def
        MAX_FACE_BOXES_def Let_def)

lemma set_face_boxes_count_range:
  "gst_player_set_face_boxes (Some ctx) boxes count sw sh = Some (r, Some ctx') \<Longrightarrow>
   0 \<le> face_box_count ctx' \<and> face_box_count ctx' \<le> 10"
  by (auto simp: gst_player_set_face_boxes_def MAX_FACE_BOXES_def Let_def
           split: option.splits if_splits)

lemma player_step_count:
  assumes "player_step op ctx = Some ctx'"
    and "0 \<le> face_box_count ctx \<and> face_box_count ctx \<le> 10"
  shows "0 \<le> face_box_count ctx' \<and> face_box_count ctx' \<le> 10"
proof (cases op)
  case (Op_set_face_boxes bs n sw sh)
  with assms(1) obtain r
    where "gst_player_set_face_boxes (Some ctx) bs n sw sh = Some (r, Some ctx')"
    by (auto split: option.splits)
  then show ?thesis by (rule set_face_boxes_count_range)
qed (use assms in \<open>auto simp: gst_player_set_window_def gst_player_set_frame_callback_def
       gst_player_start_def gst_player_stop_def gst_player_clear_face_boxes_def
       on_caps_changed_def Let_def split: option.splits if_splits prod.splits\<close>)

lemma player_run_count:
  "player_run ops ctx = Some ctx' \<Longrightarrow>
   0 \<le> face_box_count ctx \<and> face_box_count ctx \<le> 10 \<Longrightarrow>
   0 \<le> face_box_count ctx' \<and> face_box_count ctx' \<le> 10"
proof (induction ops arbitrary: ctx)
  case Nil
  then show ?case by simp
next
  case (Cons op ops)
  then obtain c1 where s: "player_step op ctx = Some c1" and r: "player_run ops c1 = Some ctx'"
    by (auto split: option.splits)
  from player_step_count [OF s Cons.prems(2)] Cons.IH [OF r] show ?case by blast
qed

lemma create_fresh:
  "gst_player_create env cfg = Some ctx \<Longrightarrow>
   face_box_count ctx = 0 \<and> length (face_boxes ctx) = 10 \<and> pipeline ctx \<noteq> None"
  by (auto simp: gst_player_create_def Let_def MAX_FACE_BOXES_def
           split: option.splits if_splits)

text \<open>
  Claim C3. A call of \<open>gst_player_set_face_boxes\<close> with \<open>count \<ge> 1\<close> and a non-null
  array that holds the boxes the call copies (\<open>count\<close> of them, or 10 when \<open>count\<close> is
  larger) returns OK. For \<open>count > 10\<close> the store then
  holds exactly the first 10 boxes of the update and the count 10; for \<open>count \<le> 10\<close> its
  first \<open>count\<close> slots hold the first \<open>count\<close> boxes (the slots behind them keep what they
  held) and the count is \<open>count\<close>. A source width or height that is not positive is replaced
  by the configured detection width or height. In every context reached from
  \<open>gst_player_create\<close> by any sequence of operations and callbacks the stored count is
  between 0 and 10.
\<close>

theorem set_face_boxes_stores_capped:
  "(0 < count \<and> min count 10 \<le> int (length bs) \<and> length (face_boxes ctx) = 10 \<longrightarrow>
     (\<exists>ctx'. gst_player_set_face_boxes (Some ctx) (Some bs) count sw sh
               = Some (GST_PLAYER_OK, Some ctx')
        \<and> (10 < count \<longrightarrow> face_boxes ctx' = take 10 bs \<and> face_box_count ctx' = 10)
        \<and> (count \<le> 10 \<longrightarrow> take (nat count) (face_boxes ctx') = take (nat count) bs
               \<and> drop (nat count) (face_boxes ctx') = drop (nat count) (face_boxes ctx)
               \<and> face_box_count ctx' = count)
        \<and> face_source_width ctx' = (if 0 < sw then sw else face_detect_width ctx)
        \<and> face_source_height ctx' = (if 0 < sh then sh else face_detect_height ctx)))
   \<and> (gst_player_create env cfg = Some c0 \<and> player_run ops c0 = Some c
        \<longrightarrow> 0 \<le> face_box_count c \<and> face_box_count c \<le> 10)"
proof (intro conjI impI)
  assume a: "0 < count \<and> min count 10 \<le> int (length bs) \<and> length (face_boxes ctx) = 10"
  let ?n = "if count < 10 then count else 10"
  have m: "memcpy_elems (face_boxes ctx) bs ?n
             = Some (take (nat ?n) bs @ drop (nat ?n) (face_boxes ctx))"
    using a by (intro memcpy_elems_Some) auto
  show "\<exists>ctx'. gst_player_set_face_boxes (Some ctx) (Some bs) count sw sh
               = Some (GST_PLAYER_OK, Some ctx')
        \<and> (10 < count \<longrightarrow> face_boxes ctx' = take 10 bs \<and> face_box_count ctx' = 10)
        \<and> (count \<le> 10 \<longrightarrow> take (nat count) (face_boxes ctx') = take (nat count) bs
               \<and> drop (nat count) (face_boxes ctx') = drop (nat count) (face_boxes ctx)
               \<and> face_box_count ctx' = count)
        \<and> face_source_width ctx' = (if 0 < sw then sw else face_detect_width ctx)
        \<and> face_source_height ctx' = (if 0 < sh then sh else face_detect_height ctx)"
    using a m by (auto simp: gst_player_set_face_boxes_def MAX_FACE_BOXES_def Let_def)
next
  assume "gst_player_create env cfg = Some c0 \<and> player_run ops c0 = Some c"
  then show "0 \<le> face_box_count c" "face_box_count c \<le> 10"
    using create_fresh [of env cfg c0] player_run_count [of ops c0 c] by auto
qed

theorem set_face_boxes_stores_capped_witness:
  "(\<exists>ctx'. gst_player_set_face_boxes (Some demo_player) (Some demo_boxes) 12 0 (-1)
             = Some (GST_PLAYER_OK, Some ctx')
      \<and> face_boxes ctx' = take 10 demo_boxes \<and> face_box_count ctx' = 10
      \<and> face_source_width ctx' = 320 \<and> face_source_height ctx' = 240)
   \<and> face_box_count
        (demo_player\<lparr>face_boxes := take 10 demo_boxes, face_box_count := 10\<rparr>) \<le> 10"
proof -
  have h1: "(0::int) < 12 \<and> min 12 10 \<le> int (length demo_boxes)
            \<and> length (face_boxes demo_player) = 10"
    by (simp add: demo_boxes_def demo_player_def)
  have h2: "gst_player_create demo_create_env (Some demo_config) = Some demo_player
            \<and> player_run [Op_set_face_boxes (Some demo_boxes) 12 0 0] demo_player
                = Some (demo_player\<lparr>face_boxes := take 10 demo_boxes, face_box_count := 10\<rparr>)"
    using demo_create demo_run by simp
  have d: "face_detect_width demo_player = 320" "face_detect_height demo_player = 240"
    by (simp_all add: demo_player_def)
  from set_face_boxes_stores_capped
         [of 12 demo_boxes demo_player 0 "-1" demo_create_env "Some demo_config" demo_player
             "[Op_set_face_boxes (Some demo_boxes) 12 0 0]"
             "demo_player\<lparr>face_boxes := take 10 demo_boxes, face_box_count := 10\<rparr>"]
       h1 h2 d
  show ?thesis by simp
qed

text \<open>
  Claim C10. On a valid handle, \<open>gst_player_set_face_boxes\<close> with a null array or with
  \<open>count \<le> 0\<close> returns OK and leaves the context exactly as \<open>gst_player_clear_face_boxes\<close>
  leaves it: the stored count is zero, and the stored source dimensions and box contents are
  what they were.
\<close>

theorem set_face_boxes_empty_clears:
  "boxes = None \<or> count \<le> 0 \<Longrightarrow>
   gst_player_set_face_boxes (Some ctx) boxes count sw sh
     = Some (GST_PLAYER_OK, gst_player_clear_face_boxes (Some ctx))
   \<and> (\<exists>ctx'. gst_player_clear_face_boxes (Some ctx) = Some ctx'
        \<and> face_box_count ctx' = 0
        \<and> face_source_width ctx' = face_source_width ctx
        \<and> face_source_height ctx' = face_source_height ctx
        \<and> face_boxes ctx' = face_boxes ctx)"
  by (auto simp: gst_player_set_face_boxes_def gst_player_clear_face_boxes_def
           split: option.splits)

theorem set_face_boxes_empty_clears_witness:
  "gst_player_set_face_boxes (Some demo_draw_ctx) (Some demo_boxes) (-1) 640 480
     = Some (GST_PLAYER_OK, gst_player_clear_face_boxes (Some demo_draw_ctx))
   \<and> gst_player_set_face_boxes (Some demo_draw_ctx) None 3 640 480
     = Some (GST_PLAYER_OK, gst_player_clear_face_boxes (Some demo_draw_ctx))"
  using set_face_boxes_empty_clears [of "Some demo_boxes" "-1" demo_draw_ctx 640 480]
        set_face_boxes_empty_clears [of None 3 demo_draw_ctx 640 480]
  by simp

text \<open>
  Claim C7, as the code has it. The draw callback returns without a single cairo call when
  the detection count is not positive, or the video width is not positive, or the detector
  source width is not positive. The guard reads neither height.
\<close>

theorem cairo_draw_guard:
  "face_box_count ctx \<le> 0 \<or> video_width ctx \<le> 0 \<or> face_source_width ctx \<le> 0 \<Longrightarrow>
   on_cairo_draw (Some ctx) = []"
  by (auto simp: on_cairo_draw_def)

theorem cairo_draw_guard_witness:
  "on_cairo_draw (Some (demo_draw_ctx\<lparr>video_width := 0\<rparr>)) = []"
  using cairo_draw_guard [of "demo_draw_ctx\<lparr>video_width := 0\<rparr>"]
  by simp

text \<open>
  Claim C7 as stated fails: with one detection, video width 640, source 320 by 240 and the
  video height unknown (0), the callback strokes a rectangle and prints the score.
\<close>

theorem cairo_draw_unknown_height_draws:
  "video_height demo_draw_ctx \<le> 0
   \<and> on_cairo_draw (Some demo_draw_ctx)
       = [Cairo_set_source_rgb, Cairo_set_line_width,
          Cairo_rectangle (demo_box 0x43200000) 640 0 320 240, Cairo_stroke,
          Cairo_set_font_size, Cairo_move_to (demo_box 0x43200000) 640 0 320 240,
          Cairo_show_text 0x3F400000]"
proof -
  have s: "score (demo_box 0x43200000) = 0x3F400000"
    by (simp add: demo_box_def)
  have p: "float32_gt_zero 0x3F400000"
    by (simp add: float32_gt_zero_def)
  show ?thesis
    by (simp add: demo_draw_ctx_def demo_player_def on_cairo_draw_def MAX_FACE_BOXES_def
          draw_box_def s p eval_nat_numeral)
qed

section \<open>Properties of the colour conversion\<close>

lemma clamp255_saturate: "clamp255 x = saturate x"
  by (simp add: clamp255_def saturate_def)

lemma rd_Some: "rd mem k = Some v \<longleftrightarrow> 0 \<le> k \<and> nat k < length mem \<and> v = byte_at mem k"
  by (auto simp: rd_def byte_at_def)

lemma wr_Some: "wr mem k v = Some m \<longleftrightarrow> 0 \<le> k \<and> nat k < length mem \<and> m = mem[nat k := word_of_int v]"
  by (auto simp: wr_def)

lemma code_bgra_spec: "code_bgra y ub vb = spec_bgra y ub vb"
  unfolding code_bgra_def spec_bgra_def clamp255_saturate drop_bit_eq_div by simp

lemma convert_pixel_code:
  assumes "convert_pixel yuv yr uvr br j bgra = Some out"
  shows "0 \<le> br + j * 4 \<and> nat (br + j * 4) + 3 < length bgra \<and>
         out = put4 bgra (nat (br + j * 4))
                 (code_bgra (byte_at yuv (yr + j)) (byte_at yuv (uvr + (j div 2) * 2))
                            (byte_at yuv (uvr + (j div 2) * 2 + 1)))"
  using assms
  by (auto simp: convert_pixel_def rd_Some wr_Some put4_def code_bgra_def
        nat_add_distrib Let_def split: Option.bind_splits if_splits)

lemmas convert_pixel_Some = convert_pixel_code[unfolded code_bgra_spec]

lemma put4_length: "length (put4 mem p px) = length mem"
  by (simp add: put4_def)

lemma put4_outside: "n < p \<or> p + 4 \<le> n \<Longrightarrow> put4 mem p px ! n = mem ! n"
  by (auto simp: put4_def)

lemma put4_inside: "p + 3 < length mem \<Longrightarrow> c < 4 \<Longrightarrow> put4 mem p px ! (p + c) = px ! c"
proof -
  assume a: "p + 3 < length mem" "c < 4"
  then consider "c = 0" | "c = 1" | "c = 2" | "c = 3" by linarith
  then show ?thesis using a by cases (auto simp: put4_def)
qed

lemma convert_pixel_defined:
  assumes "0 \<le> yr + j" "nat (yr + j) < length yuv"
    "0 \<le> uvr + (j div 2) * 2" "nat (uvr + (j div 2) * 2 + 1) < length yuv"
    "0 \<le> br + j * 4" "nat (br + j * 4) + 3 < length bgra"
    "0 \<le> j" "j * 4 + 3 \<le> 2147483647"
  shows "\<exists>out. convert_pixel yuv yr uvr br j bgra = Some out"
proof -
  have "in_int_range ((j div 2) * 2) \<and> in_int_range ((j div 2) * 2 + 1)
        \<and> in_int_range (j * 4) \<and> in_int_range (j * 4 + 3)"
    using assms(7,8) by (auto simp: in_int_range_def)
  with assms show ?thesis
    by (auto simp: convert_pixel_def rd_def wr_def nat_add_distrib Let_def)
qed

lemma pixel_loop_Some:
  "pixel_loop yuv yr uvr br k j bgra = Some out \<Longrightarrow> 0 \<le> br + j * 4 \<Longrightarrow>
   length out = length bgra
   \<and> (\<forall>n. int n < br + j * 4 \<or> br + (j + int k) * 4 \<le> int n \<longrightarrow> out ! n = bgra ! n)
   \<and> (\<forall>j' c. j \<le> j' \<and> j' < j + int k \<and> c < 4 \<longrightarrow>
         out ! (nat (br + j' * 4) + c) = px_of yuv yr uvr j' ! c)"
proof (induction k arbitrary: j bgra)
  case 0
  then show ?case by auto
next
  case (Suc k)
  let ?p = "nat (br + j * 4)"
  from Suc.prems(1) obtain b1
    where c: "convert_pixel yuv yr uvr br j bgra = Some b1"
      and l: "pixel_loop yuv yr uvr br k (j + 1) b1 = Some out"
    by (auto split: Option.bind_splits)
  from convert_pixel_Some [OF c]
  have r: "?p + 3 < length bgra" and b1: "b1 = put4 bgra ?p (px_of yuv yr uvr j)"
    by (simp_all add: px_of_def)
  have nn: "0 \<le> br + (j + 1) * 4" using Suc.prems(2) by simp
  from Suc.IH [OF l nn]
  have len: "length out = length b1"
    and same: "\<And>n. int n < br + (j + 1) * 4 \<or> br + (j + 1 + int k) * 4 \<le> int n
                 \<Longrightarrow> out ! n = b1 ! n"
    and pix: "\<And>j' c. j + 1 \<le> j' \<Longrightarrow> j' < j + 1 + int k \<Longrightarrow> c < 4
                 \<Longrightarrow> out ! (nat (br + j' * 4) + c) = px_of yuv yr uvr j' ! c"
    by blast+
  have A: "length out = length bgra" using len b1 by (simp add: put4_length)
  have B: "out ! n = bgra ! n"
    if "int n < br + j * 4 \<or> br + (j + int (Suc k)) * 4 \<le> int n" for n
  proof -
    from that have "int n < br + (j + 1) * 4 \<or> br + (j + 1 + int k) * 4 \<le> int n"
      by auto
    then have "out ! n = b1 ! n" by (rule same)
    moreover from that Suc.prems(2) have "n < ?p \<or> ?p + 4 \<le> n" by auto
    then have "b1 ! n = bgra ! n" unfolding b1 by (rule put4_outside)
    ultimately show ?thesis by simp
  qed
  have C: "out ! (nat (br + j' * 4) + c) = px_of yuv yr uvr j' ! c"
    if "j \<le> j'" "j' < j + int (Suc k)" "c < 4" for j' c
  proof (cases "j' = j")
    case True
    have "int (?p + c) < br + (j + 1) * 4" using that(3) Suc.prems(2) by auto
    then have "out ! (?p + c) = b1 ! (?p + c)" by (intro same) simp
    also have "\<dots> = px_of yuv yr uvr j ! c"
      unfolding b1 using r that(3) by (rule put4_inside)
    finally show ?thesis using True by simp
  next
    case False
    with that show ?thesis by (intro pix) auto
  qed
  from A B C show ?case by blast
qed

lemma pixel_loop_defined:
  "0 \<le> j \<Longrightarrow> 0 \<le> yr \<Longrightarrow> 0 \<le> uvr \<Longrightarrow> 0 \<le> br \<Longrightarrow>
   (j + int k) * 4 \<le> 2147483647 \<Longrightarrow>
   nat (yr + j + int k) \<le> length yuv \<Longrightarrow>
   (k = 0 \<or> nat (uvr + ((j + int k - 1) div 2) * 2 + 2) \<le> length yuv) \<Longrightarrow>
   nat (br + (j + int k) * 4) \<le> length bgra \<Longrightarrow>
   \<exists>out. pixel_loop yuv yr uvr br k j bgra = Some out"
proof (induction k arbitrary: j bgra)
  case 0
  then show ?case by simp
next
  case (Suc k)
  have "(j div 2) * 2 \<le> ((j + int (Suc k) - 1) div 2) * 2"
    by (intro mult_right_mono zdiv_mono1) auto
  with Suc.prems have "\<exists>b1. convert_pixel yuv yr uvr br j bgra = Some b1"
    by (intro convert_pixel_defined) auto
  then obtain b1 where c: "convert_pixel yuv yr uvr br j bgra = Some b1" ..
  from convert_pixel_Some [OF c] have len: "length b1 = length bgra"
    by (simp add: put4_length)
  have "\<exists>out. pixel_loop yuv yr uvr br k (j + 1) b1 = Some out"
    using Suc.prems len by (intro Suc.IH) (auto simp: algebra_simps)
  with c show ?case by auto
qed

lemma nv12_rows_loop:
  "nv12_rows yuv yp uvp w ys uvs k i bgra = rows_loop (\<lambda>i. i div 2) yuv yp uvp w ys uvs k i bgra"
proof (induction k arbitrary: i bgra)
  case 0
  show ?case by simp
next
  case (Suc k)
  have "nv12_rows yuv yp uvp w ys uvs k (i + 1)
          = rows_loop (\<lambda>i. i div 2) yuv yp uvp w ys uvs k (i + 1)"
    by (rule ext) (rule Suc.IH)
  then show ?case by simp
qed

lemma nv16_rows_loop:
  "nv16_rows yuv yp uvp w ys uvs k i bgra = rows_loop (\<lambda>i. i) yuv yp uvp w ys uvs k i bgra"
proof (induction k arbitrary: i bgra)
  case 0
  show ?case by simp
next
  case (Suc k)
  have "nv16_rows yuv yp uvp w ys uvs k (i + 1)
          = rows_loop (\<lambda>i. i) yuv yp uvp w ys uvs k (i + 1)"
    by (rule ext) (rule Suc.IH)
  then show ?case by simp
qed

lemma rows_loop_Some:
  "rows_loop crow yuv yp uvp w ys uvs k i bgra = Some out \<Longrightarrow> 0 \<le> i \<Longrightarrow> 0 \<le> w \<Longrightarrow>
   length out = length bgra
   \<and> (\<forall>n. int n < i * w * 4 \<or> (i + int k) * w * 4 \<le> int n \<longrightarrow> out ! n = bgra ! n)
   \<and> (\<forall>i' j' c. i \<le> i' \<and> i' < i + int k \<and> 0 \<le> j' \<and> j' < w \<and> c < 4 \<longrightarrow>
         out ! (nat (i' * w * 4 + j' * 4) + c)
           = px_of yuv (yp + i' * ys) (uvp + crow i' * uvs) j' ! c)"
proof (induction k arbitrary: i bgra)
  case 0
  then show ?case by auto
next
  case (Suc k)
  from Suc.prems(1) obtain b1
    where p: "pixel_loop yuv (yp + i * ys) (uvp + crow i * uvs) (i * w * 4) (nat w) 0 bgra
                = Some b1"
      and l: "rows_loop crow yuv yp uvp w ys uvs k (i + 1) b1 = Some out"
    by (auto split: Option.bind_splits if_splits)
  have base: "0 \<le> i * w * 4 + 0 * 4" using Suc.prems(2,3) by simp
  have next_row: "(i + 1) * w * 4 = i * w * 4 + w * 4" by (simp add: algebra_simps)
  have last_row: "(i + 1 + int k) * w * 4 = (i + int (Suc k)) * w * 4"
    by (simp add: algebra_simps)
  from pixel_loop_Some [OF p base] Suc.prems(3)
  have len1: "length b1 = length bgra"
    and same1: "\<And>n. int n < i * w * 4 \<or> i * w * 4 + w * 4 \<le> int n \<Longrightarrow> b1 ! n = bgra ! n"
    and pix1: "\<And>j' c. 0 \<le> j' \<Longrightarrow> j' < w \<Longrightarrow> c < 4 \<Longrightarrow>
                 b1 ! (nat (i * w * 4 + j' * 4) + c)
                   = px_of yuv (yp + i * ys) (uvp + crow i * uvs) j' ! c"
    by auto
  have i1: "0 \<le> i + 1" using Suc.prems(2) by simp
  from Suc.IH [OF l i1 Suc.prems(3)]
  have len: "length out = length b1"
    and same: "\<And>n. int n < (i + 1) * w * 4 \<or> (i + 1 + int k) * w * 4 \<le> int n
                 \<Longrightarrow> out ! n = b1 ! n"
    and pix: "\<And>i' j' c. i + 1 \<le> i' \<Longrightarrow> i' < i + 1 + int k \<Longrightarrow> 0 \<le> j' \<Longrightarrow> j' < w \<Longrightarrow> c < 4
                 \<Longrightarrow> out ! (nat (i' * w * 4 + j' * 4) + c)
                       = px_of yuv (yp + i' * ys) (uvp + crow i' * uvs) j' ! c"
    by blast+
  have w4: "0 \<le> w * 4" using Suc.prems(3) by simp
  have A: "length out = length bgra" using len len1 by simp
  have B: "out ! n = bgra ! n"
    if "int n < i * w * 4 \<or> (i + int (Suc k)) * w * 4 \<le> int n" for n
  proof -
    have up: "i * w * 4 + w * 4 \<le> (i + int (Suc k)) * w * 4"
    proof -
      have "(i + 1) * (w * 4) \<le> (i + int (Suc k)) * (w * 4)"
        using w4 by (intro mult_right_mono) auto
      then show ?thesis by (simp add: algebra_simps)
    qed
    from that w4 have "int n < (i + 1) * w * 4 \<or> (i + 1 + int k) * w * 4 \<le> int n"
      unfolding next_row last_row by auto
    then have "out ! n = b1 ! n" by (rule same)
    moreover from that up have "int n < i * w * 4 \<or> i * w * 4 + w * 4 \<le> int n" by auto
    then have "b1 ! n = bgra ! n" by (rule same1)
    ultimately show ?thesis by simp
  qed
  have C: "out ! (nat (i' * w * 4 + j' * 4) + c)
             = px_of yuv (yp + i' * ys) (uvp + crow i' * uvs) j' ! c"
    if "i \<le> i'" "i' < i + int (Suc k)" "0 \<le> j'" "j' < w" "c < 4" for i' j' c
  proof (cases "i' = i")
    case True
    have "0 \<le> i * w * 4" using Suc.prems(2,3) by simp
    then have "int (nat (i * w * 4 + j' * 4) + c) < (i + 1) * w * 4"
      unfolding next_row using that(3,4,5) by auto
    then have "out ! (nat (i * w * 4 + j' * 4) + c) = b1 ! (nat (i * w * 4 + j' * 4) + c)"
      by (intro same) simp
    also have "\<dots> = px_of yuv (yp + i * ys) (uvp + crow i * uvs) j' ! c"
      using that(3,4,5) by (rule pix1)
    finally show ?thesis using True by simp
  next
    case False
    with that show ?thesis by (intro pix) auto
  qed
  from A B C show ?case by blast
qed

lemma rows_loop_defined:
  assumes mono: "\<And>a b. 0 \<le> a \<Longrightarrow> a \<le> b \<Longrightarrow> 0 \<le> crow a \<and> crow a \<le> crow b"
  shows "0 \<le> i \<Longrightarrow> 0 < w \<Longrightarrow> 0 \<le> yp \<Longrightarrow> 0 \<le> uvp \<Longrightarrow> 0 \<le> ys \<Longrightarrow> 0 \<le> uvs \<Longrightarrow>
    (k = 0 \<or> nat (yp + (i + int k - 1) * ys + w) \<le> length yuv
            \<and> nat (uvp + crow (i + int k - 1) * uvs + ((w - 1) div 2) * 2 + 2) \<le> length yuv
            \<and> (i + int k - 1) * ys \<le> 2147483647
            \<and> crow (i + int k - 1) * uvs \<le> 2147483647) \<Longrightarrow>
    nat ((i + int k) * w * 4) \<le> length bgra \<Longrightarrow>
    (i + int k) * w * 4 \<le> 2147483647 \<Longrightarrow>
    \<exists>out. rows_loop crow yuv yp uvp w ys uvs k i bgra = Some out"
proof (induction k arbitrary: i bgra)
  case 0
  then show ?case by simp
next
  case (Suc k)
  have last: "i + int (Suc k) - 1 = i + int k" by simp
  from Suc.prems(7) have
    ylen: "nat (yp + (i + int k) * ys + w) \<le> length yuv" and
    clen: "nat (uvp + crow (i + int k) * uvs + ((w - 1) div 2) * 2 + 2) \<le> length yuv" and
    ymax: "(i + int k) * ys \<le> 2147483647" and
    cmax: "crow (i + int k) * uvs \<le> 2147483647"
    unfolding last by auto
  have ci: "0 \<le> crow i" "crow i \<le> crow (i + int k)"
    using mono [of i "i + int k"] Suc.prems(1) by auto
  have y1: "i * ys \<le> (i + int k) * ys"
    using Suc.prems(5) by (intro mult_right_mono) auto
  have c1: "crow i * uvs \<le> crow (i + int k) * uvs"
    using Suc.prems(6) ci by (intro mult_right_mono) auto
  have r0: "0 \<le> i * ys" "0 \<le> crow i * uvs" "0 \<le> i * w" "0 \<le> i * w * 4"
    using Suc.prems(1,2,5,6) ci by auto
  have b1: "i * w * 4 + w * 4 \<le> (i + int (Suc k)) * w * 4"
  proof -
    have "(i + 1) * (w * 4) \<le> (i + int (Suc k)) * (w * 4)"
      using Suc.prems(2) by (intro mult_right_mono) auto
    then show ?thesis by (simp add: algebra_simps)
  qed
  have w4: "0 < w * 4" using Suc.prems(2) by simp
  have iw: "i * w * 4 \<le> 2147483647" "i * w \<le> 2147483647" "w * 4 \<le> 2147483647"
    using b1 Suc.prems(9) w4 r0 by linarith+
  have guards: "in_int_range (i * ys) \<and> in_int_range (crow i * uvs)
                \<and> in_int_range (i * w) \<and> in_int_range (i * w * 4)"
    using r0 iw y1 c1 ymax cmax by (simp add: in_int_range_def)
  have "\<exists>b. pixel_loop yuv (yp + i * ys) (uvp + crow i * uvs) (i * w * 4) (nat w) 0 bgra
               = Some b"
  proof (rule pixel_loop_defined)
    show "(0::int) \<le> 0" by simp
    show "0 \<le> yp + i * ys" using Suc.prems(3) r0 by simp
    show "0 \<le> uvp + crow i * uvs" using Suc.prems(4) r0 by simp
    show "0 \<le> i * w * 4" by (rule r0)
    show "(0 + int (nat w)) * 4 \<le> 2147483647" using iw Suc.prems(2) by simp
    show "nat (yp + i * ys + 0 + int (nat w)) \<le> length yuv"
      using ylen y1 Suc.prems(2) by auto
    show "nat w = 0 \<or> nat (uvp + crow i * uvs + (0 + int (nat w) - 1) div 2 * 2 + 2)
            \<le> length yuv"
      using clen c1 Suc.prems(2) by auto
    show "nat (i * w * 4 + (0 + int (nat w)) * 4) \<le> length bgra"
      using Suc.prems(8) b1 Suc.prems(2) by auto
  qed
  then obtain b where p:
    "pixel_loop yuv (yp + i * ys) (uvp + crow i * uvs) (i * w * 4) (nat w) 0 bgra = Some b" ..
  have base: "0 \<le> i * w * 4 + 0 * 4" using r0 by simp
  from pixel_loop_Some [OF p base] have len: "length b = length bgra" by simp
  have "\<exists>out. rows_loop crow yuv yp uvp w ys uvs k (i + 1) b = Some out"
  proof (rule Suc.IH)
    show "0 \<le> i + 1" using Suc.prems(1) by simp
    show "0 < w" "0 \<le> yp" "0 \<le> uvp" "0 \<le> ys" "0 \<le> uvs" by (rule Suc.prems)+
    show "k = 0 \<or> nat (yp + (i + 1 + int k - 1) * ys + w) \<le> length yuv
            \<and> nat (uvp + crow (i + 1 + int k - 1) * uvs + (w - 1) div 2 * 2 + 2)
                \<le> length yuv
            \<and> (i + 1 + int k - 1) * ys \<le> 2147483647
            \<and> crow (i + 1 + int k - 1) * uvs \<le> 2147483647"
      using ylen clen ymax cmax by simp
    show "nat ((i + 1 + int k) * w * 4) \<le> length b"
      using Suc.prems(8) len by (simp add: algebra_simps)
    show "(i + 1 + int k) * w * 4 \<le> 2147483647"
      using Suc.prems(9) by (simp add: algebra_simps)
  qed
  with p guards show ?case by auto
qed

lemma cell_eq:
  assumes "p + 3 < length out" "length px = 4" "\<And>c. c < 4 \<Longrightarrow> out ! (p + c) = px ! c"
  shows "take 4 (drop p out) = px"
proof (rule nth_equalityI)
  show "length (take 4 (drop p out)) = length px" using assms(1,2) by simp
next
  fix c assume "c < length (take 4 (drop p out))"
  then have "c < 4" by simp
  then show "take 4 (drop p out) ! c = px ! c" using assms(1,3) by simp
qed

lemma spec_bgra_length: "length (spec_bgra Y U V) = 4"
  by (simp add: spec_bgra_def)

lemma rows_loop_pixel:
  assumes mono: "\<And>a b. 0 \<le> a \<Longrightarrow> a \<le> b \<Longrightarrow> 0 \<le> crow a \<and> crow a \<le> crow b"
    and ij: "0 \<le> i" "i < h" "0 \<le> j" "j < w"
    and nn: "0 \<le> yp" "0 \<le> uvp" "0 \<le> ys" "0 \<le> uvs"
    and dst: "nat (w * h * 4) \<le> length bgra"
    and ysz: "nat (yp + (h - 1) * ys + w) \<le> length yuv"
    and csz: "nat (uvp + crow (h - 1) * uvs + ((w - 1) div 2) * 2 + 2) \<le> length yuv"
    and rng: "w * h * 4 \<le> 2147483647" "(h - 1) * ys \<le> 2147483647"
      "crow (h - 1) * uvs \<le> 2147483647"
  shows "\<exists>out. rows_loop crow yuv yp uvp w ys uvs (nat h) 0 bgra = Some out
           \<and> length out = length bgra
           \<and> take 4 (drop (nat ((i * w + j) * 4)) out)
               = spec_bgra (byte_at yuv (yp + i * ys + j))
                   (byte_at yuv (uvp + crow i * uvs + (j div 2) * 2))
                   (byte_at yuv (uvp + crow i * uvs + (j div 2) * 2 + 1))"
proof -
  have hw: "0 < h" "0 < w" using ij by auto
  have "\<exists>out. rows_loop crow yuv yp uvp w ys uvs (nat h) 0 bgra = Some out"
  proof (rule rows_loop_defined [OF mono])
    show "(0::int) \<le> 0" "0 < w" "0 \<le> yp" "0 \<le> uvp" "0 \<le> ys" "0 \<le> uvs"
      using hw nn by auto
    show "nat h = 0 \<or> nat (yp + (0 + int (nat h) - 1) * ys + w) \<le> length yuv
            \<and> nat (uvp + crow (0 + int (nat h) - 1) * uvs + (w - 1) div 2 * 2 + 2)
                \<le> length yuv
            \<and> (0 + int (nat h) - 1) * ys \<le> 2147483647
            \<and> crow (0 + int (nat h) - 1) * uvs \<le> 2147483647"
      using ysz csz rng hw by simp
    show "nat ((0 + int (nat h)) * w * 4) \<le> length bgra"
      using dst hw by (simp add: mult.commute)
    show "(0 + int (nat h)) * w * 4 \<le> 2147483647"
      using rng hw by (simp add: mult.commute)
  qed auto
  then obtain out where r: "rows_loop crow yuv yp uvp w ys uvs (nat h) 0 bgra = Some out" ..
  from rows_loop_Some [OF r] hw
  have len: "length out = length bgra"
    and pix: "\<And>i' j' c. 0 \<le> i' \<Longrightarrow> i' < h \<Longrightarrow> 0 \<le> j' \<Longrightarrow> j' < w \<Longrightarrow> c < 4 \<Longrightarrow>
                out ! (nat (i' * w * 4 + j' * 4) + c)
                  = px_of yuv (yp + i' * ys) (uvp + crow i' * uvs) j' ! c"
    by auto
  have idx: "(i * w + j) * 4 = i * w * 4 + j * 4" by (simp add: algebra_simps)
  have "(i + 1) * (w * 4) \<le> h * (w * 4)"
    using ij hw by (intro mult_right_mono) auto
  then have "i * w * 4 + j * 4 + 4 \<le> w * h * 4"
    using ij by (simp add: algebra_simps)
  moreover have "0 \<le> i * w * 4 + j * 4" using ij hw by simp
  ultimately have inb: "nat (i * w * 4 + j * 4) + 3 < length out"
    using dst len by auto
  have "take 4 (drop (nat (i * w * 4 + j * 4)) out)
          = px_of yuv (yp + i * ys) (uvp + crow i * uvs) j"
    using inb pix [OF ij]
    by (intro cell_eq) (auto simp: px_of_def spec_bgra_length)
  then show ?thesis using r len unfolding idx px_of_def by (auto simp: add.assoc)
qed

text \<open>A frame that fits its buffers is converted, whatever its format.\<close>

lemma rows_converts:
  assumes mono: "\<And>a b. 0 \<le> a \<Longrightarrow> a \<le> b \<Longrightarrow> 0 \<le> crow a \<and> crow a \<le> crow b"
    and le: "crow (h - 1) \<le> h - 1"
    and pos: "0 < w" "0 < h" "0 \<le> hs" "0 \<le> vs"
    and rng: "(h - 1) * hs \<le> 2147483647" "w * h * 4 \<le> 2147483647"
    and dst: "nat (w * h * 4) \<le> length out"
    and ysz: "nat ((h - 1) * hs + w) \<le> length yuv"
    and csz: "nat (hs * vs + crow (h - 1) * hs + ((w - 1) div 2) * 2 + 2) \<le> length yuv"
  shows "\<exists>conv. rows_loop crow yuv 0 (hs * vs) w hs hs (nat h) 0 out = Some conv
           \<and> length conv = length out"
proof -
  have c: "crow (h - 1) * hs \<le> (h - 1) * hs"
    using le pos by (intro mult_right_mono) auto
  have "\<exists>conv. rows_loop crow yuv 0 (hs * vs) w hs hs (nat h) 0 out = Some conv
           \<and> length conv = length out
           \<and> take 4 (drop (nat ((0 * w + 0) * 4)) conv)
               = spec_bgra (byte_at yuv (0 + 0 * hs + 0))
                   (byte_at yuv (hs * vs + crow 0 * hs + (0 div 2) * 2))
                   (byte_at yuv (hs * vs + crow 0 * hs + (0 div 2) * 2 + 1))"
    using pos rng dst ysz csz c
    by (intro rows_loop_pixel [OF mono]) auto
  then show ?thesis by blast
qed

lemma frame_fits_converts:
  assumes "frame_fits fr yuv out"
  shows "\<exists>conv. yuv_to_bgra_cpu yuv out (sint (fr_width fr)) (sint (fr_height fr))
                    (sint (fr_hor_stride fr)) (sint (fr_ver_stride fr)) (fr_fmt fr) = Some conv
           \<and> length conv = length out"
proof -
  let ?w = "sint (fr_width fr)" and ?h = "sint (fr_height fr)"
  let ?hs = "sint (fr_hor_stride fr)" and ?vs = "sint (fr_ver_stride fr)"
  from assms have f: "0 < ?w" "0 < ?h" "0 \<le> ?hs" "0 \<le> ?vs"
    "?hs * ?vs \<le> 2147483647" "(?h - 1) * ?hs \<le> 2147483647" "?w * ?h * 4 \<le> 2147483647"
    "nat (?w * ?h * 4) \<le> length out" "nat ((?h - 1) * ?hs + ?w) \<le> length yuv"
    "nat (?hs * ?vs + chroma_last (fr_fmt fr) ?h * ?hs + ((?w - 1) div 2) * 2 + 2)
       \<le> length yuv"
    by (simp_all add: frame_fits_def Let_def)
  have "0 \<le> ?hs * ?vs" using f(3,4) by simp
  then have r: "in_int_range (?hs * ?vs)"
    using f(5) by (simp add: in_int_range_def)
  have m2: "\<And>a b :: int. 0 \<le> a \<Longrightarrow> a \<le> b \<Longrightarrow> 0 \<le> a div 2 \<and> a div 2 \<le> b div 2"
    by (auto intro: zdiv_mono1)
  have l2: "(?h - 1) div 2 \<le> ?h - 1" using f(2) by simp
  show ?thesis
  proof (cases "fr_fmt fr = MPP_FMT_YUV422SP \<or> fr_fmt fr = MPP_FMT_YUV422SP_VU")
    case True
    then have cl: "chroma_last (fr_fmt fr) ?h = ?h - 1"
      by (auto simp: chroma_last_def)
    from rows_converts [of "\<lambda>i. i" ?h ?w ?hs ?vs out yuv] f cl
    have "\<exists>conv. rows_loop (\<lambda>i. i) yuv 0 (?hs * ?vs) ?w ?hs ?hs (nat ?h) 0 out = Some conv
            \<and> length conv = length out"
      by simp
    with True r show ?thesis
      by (auto simp: yuv_to_bgra_cpu_def nv16_to_bgra_def nv16_rows_loop)
  next
    case False
    then have cl: "chroma_last (fr_fmt fr) ?h = (?h - 1) div 2"
      by (cases "fr_fmt fr") (auto simp: chroma_last_def)
    from rows_converts [of "\<lambda>i. i div 2" ?h ?w ?hs ?vs out yuv, OF m2 l2] f cl
    have "\<exists>conv. rows_loop (\<lambda>i. i div 2) yuv 0 (?hs * ?vs) ?w ?hs ?hs (nat ?h) 0 out
                    = Some conv
            \<and> length conv = length out"
      by simp
    with False r show ?thesis
      by (cases "fr_fmt fr")
         (auto simp: yuv_to_bgra_cpu_def nv12_to_bgra_scalar_def nv12_rows_loop)
  qed
qed

text \<open>
  Claim C5 holds of the two loops on Cb-first input and fails on Cr-first input. For every
  pixel \<open>(i, j)\<close> of a frame whose buffers are large enough for the geometry and whose
  offsets stay inside \<open>int\<close>, \<open>nv12_to_bgra_scalar\<close> (4:2:0) returns a buffer whose four
  bytes at pixel \<open>(i, j)\<close> are B, G, R, A of the specification's formula, with Y from luma
  row \<open>i\<close>, column \<open>j\<close>, with U the byte at chroma row \<open>i div 2\<close>, column
  \<open>(j div 2) * 2\<close>, and with V the byte at column \<open>(j div 2) * 2 + 1\<close> of that row;
  \<open>nv16_to_bgra\<close> (4:2:2) does the same with chroma row \<open>i\<close>. The two columns are fixed:
  \<open>yuv_to_bgra_cpu\<close> runs the same loops on the Cr-first formats NV21 and NV61, where the
  first column holds Cr, and the formula is then applied with U and V exchanged (the defect
  of claim C2).
\<close>

theorem scalar_conversion_formula:
  "0 \<le> i \<and> i < h \<and> 0 \<le> j \<and> j < w
   \<and> 0 \<le> y_plane \<and> 0 \<le> uv_plane \<and> 0 \<le> y_stride \<and> 0 \<le> uv_stride
   \<and> w * h * 4 \<le> 2147483647 \<and> (h - 1) * y_stride \<le> 2147483647
   \<and> nat (w * h * 4) \<le> length bgra
   \<and> nat (y_plane + (h - 1) * y_stride + w) \<le> length yuv \<Longrightarrow>
   (((h - 1) div 2) * uv_stride \<le> 2147483647
    \<and> nat (uv_plane + ((h - 1) div 2) * uv_stride + ((w - 1) div 2) * 2 + 2) \<le> length yuv \<longrightarrow>
      (\<exists>out. nv12_to_bgra_scalar yuv y_plane uv_plane bgra w h y_stride uv_stride = Some out
         \<and> length out = length bgra
         \<and> take 4 (drop (nat ((i * w + j) * 4)) out)
             = spec_bgra (byte_at yuv (y_plane + i * y_stride + j))
                 (byte_at yuv (uv_plane + (i div 2) * uv_stride + (j div 2) * 2))
                 (byte_at yuv (uv_plane + (i div 2) * uv_stride + (j div 2) * 2 + 1))))
   \<and> ((h - 1) * uv_stride \<le> 2147483647
      \<and> nat (uv_plane + (h - 1) * uv_stride + ((w - 1) div 2) * 2 + 2) \<le> length yuv \<longrightarrow>
      (\<exists>out. nv16_to_bgra yuv y_plane uv_plane bgra w h y_stride uv_stride = Some out
         \<and> length out = length bgra
         \<and> take 4 (drop (nat ((i * w + j) * 4)) out)
             = spec_bgra (byte_at yuv (y_plane + i * y_stride + j))
                 (byte_at yuv (uv_plane + i * uv_stride + (j div 2) * 2))
                 (byte_at yuv (uv_plane + i * uv_stride + (j div 2) * 2 + 1))))"
proof (intro conjI impI)
  assume a: "0 \<le> i \<and> i < h \<and> 0 \<le> j \<and> j < w
   \<and> 0 \<le> y_plane \<and> 0 \<le> uv_plane \<and> 0 \<le> y_stride \<and> 0 \<le> uv_stride
   \<and> w * h * 4 \<le> 2147483647 \<and> (h - 1) * y_stride \<le> 2147483647
   \<and> nat (w * h * 4) \<le> length bgra
   \<and> nat (y_plane + (h - 1) * y_stride + w) \<le> length yuv"
  {
    assume c: "((h - 1) div 2) * uv_stride \<le> 2147483647
      \<and> nat (uv_plane + ((h - 1) div 2) * uv_stride + ((w - 1) div 2) * 2 + 2) \<le> length yuv"
    have mono: "\<And>a b :: int. 0 \<le> a \<Longrightarrow> a \<le> b \<Longrightarrow> 0 \<le> a div 2 \<and> a div 2 \<le> b div 2"
      by (auto intro: zdiv_mono1)
    from rows_loop_pixel [of "\<lambda>i. i div 2" i h j w y_plane uv_plane y_stride uv_stride
                             bgra yuv, OF mono] a c
    show "\<exists>out. nv12_to_bgra_scalar yuv y_plane uv_plane bgra w h y_stride uv_stride = Some out
         \<and> length out = length bgra
         \<and> take 4 (drop (nat ((i * w + j) * 4)) out)
             = spec_bgra (byte_at yuv (y_plane + i * y_stride + j))
                 (byte_at yuv (uv_plane + (i div 2) * uv_stride + (j div 2) * 2))
                 (byte_at yuv (uv_plane + (i div 2) * uv_stride + (j div 2) * 2 + 1))"
      by (simp add: nv12_to_bgra_scalar_def nv12_rows_loop)
  }
  {
    assume c: "(h - 1) * uv_stride \<le> 2147483647
      \<and> nat (uv_plane + (h - 1) * uv_stride + ((w - 1) div 2) * 2 + 2) \<le> length yuv"
    from rows_loop_pixel [of "\<lambda>i. i" i h j w y_plane uv_plane y_stride uv_stride bgra yuv] a c
    show "\<exists>out. nv16_to_bgra yuv y_plane uv_plane bgra w h y_stride uv_stride = Some out
         \<and> length out = length bgra
         \<and> take 4 (drop (nat ((i * w + j) * 4)) out)
             = spec_bgra (byte_at yuv (y_plane + i * y_stride + j))
                 (byte_at yuv (uv_plane + i * uv_stride + (j div 2) * 2))
                 (byte_at yuv (uv_plane + i * uv_stride + (j div 2) * 2 + 1))"
      by (simp add: nv16_to_bgra_def nv16_rows_loop)
  }
qed

text \<open>
  On the Cr-first frame \<open>vu_frame\<close> (luma 50, 100, 150, 200; chroma rows Cr = 200, Cb = 60
  and Cr = 180, Cb = 90) pixel \<open>(1, 1)\<close> comes out as B, G, R, A = 255, 224, 104, 255 for
  NV21 and as 255, 210, 146, 255 for NV61, where the formula of the claim with U = Cb and
  V = Cr gives 79, 172, 255, 255 and 132, 176, 255, 255.
\<close>

theorem scalar_conversion_formula_witness:
  "(\<exists>out. yuv_to_bgra_cpu vu_frame black16 2 2 2 2 MPP_FMT_YUV420SP_VU = Some out
      \<and> length out = length black16 \<and> take 4 (drop 12 out) = spec_bgra 200 200 60)
   \<and> (\<exists>out. yuv_to_bgra_cpu vu_frame black16 2 2 2 2 MPP_FMT_YUV422SP_VU = Some out
      \<and> length out = length black16 \<and> take 4 (drop 12 out) = spec_bgra 200 180 90)
   \<and> spec_bgra 200 200 60 = [255, 224, 104, 255]
   \<and> spec_bgra 200 60 200 = [79, 172, 255, 255]
   \<and> spec_bgra 200 180 90 = [255, 210, 146, 255]
   \<and> spec_bgra 200 90 180 = [132, 176, 255, 255]"
proof -
  have h: "(0::int) \<le> 1 \<and> (1::int) < 2 \<and> (0::int) \<le> 1 \<and> (1::int) < 2
     \<and> (0::int) \<le> 0 \<and> (0::int) \<le> 4 \<and> (0::int) \<le> 2 \<and> (0::int) \<le> 2
     \<and> (2::int) * 2 * 4 \<le> 2147483647 \<and> ((2::int) - 1) * 2 \<le> 2147483647
     \<and> nat (2 * 2 * 4) \<le> length black16
     \<and> nat (0 + (2 - 1) * 2 + 2) \<le> length vu_frame"
    by (simp add: black16_def vu_frame_def)
  have c: "(((2::int) - 1) div 2) * 2 \<le> 2147483647
      \<and> nat (4 + ((2 - 1) div 2) * 2 + ((2 - 1) div 2) * 2 + 2) \<le> length vu_frame"
    "((2::int) - 1) * 2 \<le> 2147483647
      \<and> nat (4 + (2 - 1) * 2 + ((2 - 1) div 2) * 2 + 2) \<le> length vu_frame"
    by (simp_all add: vu_frame_def)
  have b: "byte_at vu_frame 3 = 200" "byte_at vu_frame 4 = 200" "byte_at vu_frame 5 = 60"
    "byte_at vu_frame 6 = 180" "byte_at vu_frame 7 = 90"
    by (simp_all add: byte_at_def vu_frame_def)
  have d: "yuv_to_bgra_cpu vu_frame black16 2 2 2 2 MPP_FMT_YUV420SP_VU
             = nv12_to_bgra_scalar vu_frame 0 4 black16 2 2 2 2"
    "yuv_to_bgra_cpu vu_frame black16 2 2 2 2 MPP_FMT_YUV422SP_VU
             = nv16_to_bgra vu_frame 0 4 black16 2 2 2 2"
    by (simp_all add: yuv_to_bgra_cpu_def in_int_range_def)
  have v: "spec_bgra 200 200 60 = [255, 224, 104, 255]"
    "spec_bgra 200 60 200 = [79, 172, 255, 255]"
    "spec_bgra 200 180 90 = [255, 210, 146, 255]"
    "spec_bgra 200 90 180 = [132, 176, 255, 255]"
    by (simp_all add: spec_bgra_def saturate_def)
  from scalar_conversion_formula [of 1 2 1 2 0 4 2 2 black16 vu_frame, OF h] c b
  have "(\<exists>out. nv12_to_bgra_scalar vu_frame 0 4 black16 2 2 2 2 = Some out
      \<and> length out = length black16 \<and> take 4 (drop 12 out) = spec_bgra 200 200 60)
   \<and> (\<exists>out. nv16_to_bgra vu_frame 0 4 black16 2 2 2 2 = Some out
      \<and> length out = length black16 \<and> take 4 (drop 12 out) = spec_bgra 200 180 90)"
    by simp
  then show ?thesis unfolding d using v by simp
qed

text \<open>
  Claim C2 does not hold of the code: \<open>yuv_to_bgra_cpu\<close> sends the Cr-first formats to the
  same loops as the Cb-first ones, so it returns the same bytes for NV21 as for NV12 and for
  NV61 as for NV16. On the red NV21 frame it takes the Cr byte 240 at chroma column 0 as U
  and the Cb byte 16 at column 1 as V, and every pixel comes out blue
  (B, G, R, A = 255, 170, 0, 255), where reading Cr from column 0 as the claim says gives
  red (0, 87, 255, 255).
\<close>

theorem cpu_conversion_ignores_chroma_order:
  "yuv_to_bgra_cpu yuv bgra w h hs vs MPP_FMT_YUV420SP_VU
     = yuv_to_bgra_cpu yuv bgra w h hs vs MPP_FMT_YUV420SP
   \<and> yuv_to_bgra_cpu yuv bgra w h hs vs MPP_FMT_YUV422SP_VU
     = yuv_to_bgra_cpu yuv bgra w h hs vs MPP_FMT_YUV422SP
   \<and> yuv_to_bgra_cpu nv21_red black16 2 2 2 2 MPP_FMT_YUV420SP_VU
     = Some (concat (replicate 4 (spec_bgra 128 240 16)))
   \<and> spec_bgra 128 240 16 = [255, 170, 0, 255]
   \<and> spec_bgra 128 16 240 = [0, 87, 255, 255]"
proof (intro conjI)
  show "yuv_to_bgra_cpu nv21_red black16 2 2 2 2 MPP_FMT_YUV420SP_VU
     = Some (concat (replicate 4 (spec_bgra 128 240 16)))"
    by code_simp
  show "spec_bgra 128 240 16 = [255, 170, 0, 255]"
    by (simp add: spec_bgra_def saturate_def)
  show "spec_bgra 128 16 240 = [0, 87, 255, 255]"
    by (simp add: spec_bgra_def saturate_def)
qed (simp_all add: yuv_to_bgra_cpu_def)

section \<open>Properties of start, stop and frame capture\<close>

lemma demo_start:
  "camera_start demo_stream_env (Some demo_camera) (Some 5) (Some 6)
     = Some (CAMERA_OK, Some demo_camera_started,
             [Ioctl_qbuf 0, Ioctl_qbuf 1, Ioctl_qbuf 2, Ioctl_qbuf 3, Ioctl_streamon,
              Pthread_create 77])"
  by (simp add: camera_start_def v4l2_start_streaming_def demo_camera_def demo_stream_env_def
        demo_camera_started_def failed_def eval_nat_numeral)

lemma demo_stop:
  "camera_stop demo_stream_env (Some demo_camera_started)
     = Some (CAMERA_OK, Some (demo_camera_started\<lparr>running := 0, thread_started := 0\<rparr>),
             [Pthread_join 77, Ioctl_streamoff])"
  by (simp add: camera_stop_def demo_camera_def demo_stream_env_def
        demo_camera_started_def failed_def Let_def)

lemma demo_player_start:
  "gst_player_start demo_start_env (Some demo_player)
     = (GST_PLAYER_OK, Some demo_player_playing, [Set_state 1 GST_STATE_PLAYING])"
  by (simp add: gst_player_start_def demo_start_env_def demo_player_def demo_player_playing_def)

lemma demo_player_stop:
  "gst_player_stop (Some demo_player_playing)
     = (GST_PLAYER_OK, Some (demo_player_playing\<lparr>p_running := False, playing := False\<rparr>),
        [Set_state 1 GST_STATE_NULL])"
  by (simp add: gst_player_stop_def demo_player_def demo_player_playing_def)

lemma player_step_pipeline:
  "player_step op ctx = Some ctx' \<Longrightarrow> pipeline ctx' = pipeline ctx"
  by (cases op)
     (auto simp: gst_player_set_window_def gst_player_set_frame_callback_def
        gst_player_start_def gst_player_stop_def gst_player_clear_face_boxes_def
        gst_player_set_face_boxes_def on_caps_changed_def Let_def
        split: option.splits if_splits prod.splits)

lemma player_run_pipeline:
  "player_run ops ctx = Some ctx' \<Longrightarrow> pipeline ctx' = pipeline ctx"
proof (induction ops arbitrary: ctx)
  case Nil
  then show ?case by simp
next
  case (Cons op ops)
  then obtain c1 where s: "player_step op ctx = Some c1" and r: "player_run ops c1 = Some ctx'"
    by (auto split: option.splits)
  from player_step_pipeline [OF s] Cons.IH [OF r] show ?case by simp
qed

text \<open>
  Claim C8. \<open>camera_start\<close> on a running context and \<open>gst_player_start\<close> on a playing
  context (any context reached from \<open>gst_player_create\<close>) return OK, leave the context as it
  is and make no call on the kernel, the thread library or GStreamer; \<open>camera_stop\<close> on a
  context that is not running and \<open>gst_player_stop\<close> on one that is not playing do the
  same. A start that returned OK leaves a context on which a further start is such a
  no-op, and every stop leaves a context on which a further stop is such a no-op.
\<close>

theorem start_stop_idempotent:
  "(running c1 \<noteq> 0 \<longrightarrow> camera_start env1 (Some c1) cb1 ud1 = Some (CAMERA_OK, Some c1, []))
   \<and> (running c2 = 0 \<longrightarrow> camera_stop env2 (Some c2) = Some (CAMERA_OK, Some c2, []))
   \<and> (gst_player_create cenv cfg = Some p0 \<and> player_run ops p0 = Some p1 \<and> playing p1
        \<longrightarrow> gst_player_start senv1 (Some p1) = (GST_PLAYER_OK, Some p1, []))
   \<and> (\<not> playing p2 \<longrightarrow> gst_player_stop (Some p2) = (GST_PLAYER_OK, Some p2, []))
   \<and> (camera_start env3 (Some c3) cb3 ud3 = Some (CAMERA_OK, Some c3', calls3)
        \<longrightarrow> camera_start env3' (Some c3') cb3' ud3' = Some (CAMERA_OK, Some c3', []))
   \<and> (camera_stop env4 (Some c4) = Some (r4, Some c4', calls4)
        \<longrightarrow> camera_stop env4' (Some c4') = Some (CAMERA_OK, Some c4', []))
   \<and> (gst_player_start senv5 (Some p5) = (GST_PLAYER_OK, Some p5', gcalls5)
        \<longrightarrow> gst_player_start senv5' (Some p5') = (GST_PLAYER_OK, Some p5', []))
   \<and> (gst_player_stop (Some p6) = (r6, Some p6', gcalls6)
        \<longrightarrow> gst_player_stop (Some p6') = (GST_PLAYER_OK, Some p6', []))"
proof (intro conjI impI)
  show "camera_start env1 (Some c1) cb1 ud1 = Some (CAMERA_OK, Some c1, [])"
    if "running c1 \<noteq> 0"
    using that by (simp add: camera_start_def)
  show "camera_stop env2 (Some c2) = Some (CAMERA_OK, Some c2, [])" if "running c2 = 0"
    using that by (simp add: camera_stop_def)
  show "gst_player_start senv1 (Some p1) = (GST_PLAYER_OK, Some p1, [])"
    if "gst_player_create cenv cfg = Some p0 \<and> player_run ops p0 = Some p1 \<and> playing p1"
  proof -
    from that create_fresh [of cenv cfg p0] player_run_pipeline [of ops p0 p1]
    have "pipeline p1 \<noteq> None" by auto
    with that show ?thesis by (auto simp: gst_player_start_def)
  qed
  show "gst_player_stop (Some p2) = (GST_PLAYER_OK, Some p2, [])" if "\<not> playing p2"
    using that by (simp add: gst_player_stop_def)
  show "camera_start env3' (Some c3') cb3' ud3' = Some (CAMERA_OK, Some c3', [])"
    if "camera_start env3 (Some c3) cb3 ud3 = Some (CAMERA_OK, Some c3', calls3)"
  proof -
    from that have "running c3' \<noteq> 0"
      by (auto simp: camera_start_def Let_def split: if_splits option.splits prod.splits)
    then show ?thesis by (simp add: camera_start_def)
  qed
  show "camera_stop env4' (Some c4') = Some (CAMERA_OK, Some c4', [])"
    if "camera_stop env4 (Some c4) = Some (r4, Some c4', calls4)"
  proof -
    from that have "running c4' = 0"
      by (auto simp: camera_stop_def Let_def split: if_splits option.splits)
    then show ?thesis by (simp add: camera_stop_def)
  qed
  show "gst_player_start senv5' (Some p5') = (GST_PLAYER_OK, Some p5', [])"
    if "gst_player_start senv5 (Some p5) = (GST_PLAYER_OK, Some p5', gcalls5)"
  proof -
    from that have "playing p5' \<and> pipeline p5' \<noteq> None"
      by (auto simp: gst_player_start_def Let_def split: if_splits option.splits)
    then show ?thesis by (auto simp: gst_player_start_def)
  qed
  show "gst_player_stop (Some p6') = (GST_PLAYER_OK, Some p6', [])"
    if "gst_player_stop (Some p6) = (r6, Some p6', gcalls6)"
  proof -
    from that have "\<not> playing p6'"
      by (auto simp: gst_player_stop_def split: if_splits)
    then show ?thesis by (simp add: gst_player_stop_def)
  qed
qed

theorem start_stop_idempotent_witness:
  "camera_start demo_stream_env (Some demo_camera_started) None None
     = Some (CAMERA_OK, Some demo_camera_started, [])
   \<and> camera_stop demo_stream_env (Some demo_camera) = Some (CAMERA_OK, Some demo_camera, [])
   \<and> gst_player_start demo_start_env (Some demo_player_playing)
     = (GST_PLAYER_OK, Some demo_player_playing, [])
   \<and> gst_player_stop (Some demo_player) = (GST_PLAYER_OK, Some demo_player, [])
   \<and> camera_stop demo_stream_env
        (Some (demo_camera_started\<lparr>running := 0, thread_started := 0\<rparr>))
     = Some (CAMERA_OK, Some (demo_camera_started\<lparr>running := 0, thread_started := 0\<rparr>), [])
   \<and> gst_player_stop (Some (demo_player_playing\<lparr>p_running := False, playing := False\<rparr>))
     = (GST_PLAYER_OK, Some (demo_player_playing\<lparr>p_running := False, playing := False\<rparr>), [])"
proof -
  have h1: "running demo_camera_started \<noteq> 0"
    by (simp add: demo_camera_started_def)
  have h2: "running demo_camera = 0"
    by (simp add: demo_camera_def)
  have h3: "gst_player_create demo_create_env (Some demo_config) = Some demo_player
            \<and> player_run [Op_start demo_start_env] demo_player = Some demo_player_playing
            \<and> playing demo_player_playing"
    using demo_create demo_player_start by (simp add: demo_player_playing_def)
  have h4: "\<not> playing demo_player"
    by (simp add: demo_player_def)
  from start_stop_idempotent
         [of demo_camera_started demo_stream_env None None
             demo_camera demo_stream_env
             demo_create_env "Some demo_config" demo_player "[Op_start demo_start_env]"
             demo_player_playing demo_start_env
             demo_player
             demo_stream_env demo_camera "Some 5" "Some 6" demo_camera_started
             "[Ioctl_qbuf 0, Ioctl_qbuf 1, Ioctl_qbuf 2, Ioctl_qbuf 3, Ioctl_streamon,
               Pthread_create 77]"
             demo_stream_env None None
             demo_stream_env demo_camera_started CAMERA_OK
             "demo_camera_started\<lparr>running := 0, thread_started := 0\<rparr>"
             "[Pthread_join 77, Ioctl_streamoff]" demo_stream_env
             demo_start_env demo_player demo_player_playing "[Set_state 1 GST_STATE_PLAYING]"
             demo_start_env
             demo_player_playing GST_PLAYER_OK
             "demo_player_playing\<lparr>p_running := False, playing := False\<rparr>"
             "[Set_state 1 GST_STATE_NULL]"]
       h1 h2 h3 h4 demo_start demo_stop demo_player_start demo_player_stop
  show ?thesis by simp
qed

text \<open>With no step of the worker between the entry and the lock, the call copies the
  published slot.\<close>

lemma capture_frame_between_passes:
  "running ctx \<noteq> 0 \<and> bgra_buffer_size ctx \<le> announced
   \<and> bgra_slot ctx (1 - bgra_write_idx ctx) = Some published
   \<and> 0 \<le> bgra_buffer_size ctx
   \<and> nat (bgra_buffer_size ctx) \<le> length published
   \<and> nat (bgra_buffer_size ctx) \<le> length dst \<Longrightarrow>
   camera_capture_frame (Some ctx) ctx (Some dst) announced True True t
     = Some (CAMERA_OK,
             Some (take (nat (bgra_buffer_size ctx)) published
                   @ drop (nat (bgra_buffer_size ctx)) dst),
             Some (width ctx), Some (height ctx))"
  by (auto simp: camera_capture_frame_def memcpy_elems_def Let_def bgra_slot_def
        in_int_range_def split: if_splits)



section \<open>Properties of initialisation\<close>

lemma map_buffers_keeps:
  "map_buffers env k i ctx = Some (r, ctx') \<Longrightarrow>
   width ctx' = width ctx \<and> height ctx' = height ctx \<and> buffer_count ctx' = buffer_count ctx"
proof (induction k arbitrary: i ctx)
  case 0
  then show ?case by simp
next
  case (Suc k)
  show ?case
  proof (cases "xioctl (ve_querybuf env i)")
    case None
    with Suc.prems show ?thesis by simp
  next
    case (Some a)
    let ?c = "ctx\<lparr>v4l2_buffers := (v4l2_buffers ctx)
                [i := \<lparr>buf_start = ve_mmap env i, buf_length = ve_buf_length env i\<rparr>]\<rparr>"
    consider "failed a" | "\<not> failed a" "length (v4l2_buffers ctx) \<le> i"
      | "\<not> failed a" "i < length (v4l2_buffers ctx)" "ve_mmap env i = Map_failed"
      | "\<not> failed a" "i < length (v4l2_buffers ctx)" "ve_mmap env i \<noteq> Map_failed"
      by fastforce
    then show ?thesis
    proof cases
      case 4
      with Some Suc.prems have "map_buffers env k (Suc i) ?c = Some (r, ctx')"
        by (simp add: Let_def)
      from Suc.IH [OF this] show ?thesis by simp
    qed (use Some Suc.prems in \<open>auto simp: Let_def\<close>)
  qed
qed

lemma v4l2_init_success:
  assumes "v4l2_init env ctx = Some (0, ctx')"
  shows "ve_pixelformat env = V4L2_PIX_FMT_MJPEG \<and> 2 \<le> ve_req_count env
         \<and> width ctx' = sint (ve_width env) \<and> height ctx' = sint (ve_height env)
         \<and> buffer_count ctx' = sint (ve_req_count env)"
proof -
  let ?c = "ctx\<lparr>v4l2_fd := ve_open_fd env, width := sint (ve_width env),
                 height := sint (ve_height env), buffer_count := sint (ve_req_count env)\<rparr>"
  from assms have f: "ve_pixelformat env = V4L2_PIX_FMT_MJPEG" and c: "\<not> ve_req_count env < 2"
    and m: "map_buffers env (nat (sint (ve_req_count env))) 0 ?c = Some (0, ctx')"
    by (auto simp: v4l2_init_def Let_def split: if_splits option.splits)
  from map_buffers_keeps [OF m] f c show ?thesis by (simp add: not_less)
qed

lemma v4l2_init_rejects_format:
  assumes "ve_pixelformat env \<noteq> V4L2_PIX_FMT_MJPEG"
    and "xioctl (ve_querycap env) \<noteq> None" "xioctl (ve_s_fmt env) \<noteq> None"
  shows "\<exists>c. v4l2_init env ctx = Some (-1, c)"
  using assms by (auto simp: v4l2_init_def Let_def split: option.splits)

lemma v4l2_init_rejects_count:
  assumes "ve_req_count env < 2"
    and "xioctl (ve_querycap env) \<noteq> None" "xioctl (ve_s_fmt env) \<noteq> None"
    and "xioctl (ve_s_parm env) \<noteq> None" "xioctl (ve_reqbufs env) \<noteq> None"
  shows "\<exists>c. v4l2_init env ctx = Some (-1, c)"
  using assms by (auto simp: v4l2_init_def Let_def split: option.splits)

lemma camera_init_rejects:
  assumes "ve_pixelformat (ie_v4l2 env) \<noteq> V4L2_PIX_FMT_MJPEG \<or> ve_req_count (ie_v4l2 env) < 2"
    and "xioctl (ve_querycap (ie_v4l2 env)) \<noteq> None" "xioctl (ve_s_fmt (ie_v4l2 env)) \<noteq> None"
    and "xioctl (ve_s_parm (ie_v4l2 env)) \<noteq> None" "xioctl (ve_reqbufs (ie_v4l2 env)) \<noteq> None"
  shows "camera_init env dev w h f = Some None"
proof -
  let ?c0 = "zeroed_context\<lparr>width := w, height := h, fps := f, v4l2_fd := -1,
                            bgra_write_idx := 0\<rparr>"
  from assms v4l2_init_rejects_format [of "ie_v4l2 env" ?c0]
       v4l2_init_rejects_count [of "ie_v4l2 env" ?c0]
  obtain c where "v4l2_init (ie_v4l2 env) ?c0 = Some (-1, c)" by blast
  then show ?thesis by (simp add: camera_init_def Let_def)
qed

lemma alloc_decode_bufs_keeps:
  "alloc_decode_bufs env ps fs k i ctx = Some (r, ctx') \<Longrightarrow>
   width ctx' = width ctx \<and> height ctx' = height ctx"
proof (induction k arbitrary: i ctx)
  case 0
  then show ?case by simp
next
  case (Suc k)
  show ?case
  proof (cases "me_pkt_buffer env i = None \<or> me_frm_buffer env i = None")
    case True
    with Suc.prems show ?thesis
      by (auto simp: Let_def split: if_splits option.splits)
  next
    case False
    then obtain pb fb where b: "me_pkt_buffer env i = Some pb" "me_frm_buffer env i = Some fb"
      by auto
    let ?d1 = "ctx\<lparr>decode_bufs := (decode_bufs ctx)
                 [i := (decode_bufs ctx ! i)\<lparr>pkt_buf := Some pb, pkt_buf_size := ps\<rparr>]\<rparr>"
    let ?d2 = "?d1\<lparr>decode_bufs := (decode_bufs ?d1)
                 [i := (decode_bufs ?d1 ! i)\<lparr>frm_buf := Some fb, frm_buf_size := fs\<rparr>]\<rparr>"
    from Suc.prems b have "alloc_decode_bufs env ps fs k (Suc i) ?d2 = Some (r, ctx')"
      by (simp add: Let_def split: if_splits)
    from Suc.IH [OF this] show ?thesis by simp
  qed
qed

lemma mpp_decoder_init_keeps:
  assumes "mpp_decoder_init env ctx = Some (r, ctx')"
  shows "width ctx' = width ctx \<and> height ctx' = height ctx"
proof (cases "me_create env")
  case None
  with assms show ?thesis by (simp add: mpp_decoder_init_def)
next
  case (Some cm)
  obtain c m where cm: "cm = (c, m)" by (cases cm)
  show ?thesis
  proof (cases "me_init_ok env")
    case False
    with assms Some cm show ?thesis by (auto simp: mpp_decoder_init_def Let_def)
  next
    case True
    show ?thesis
    proof (cases "me_group env")
      case None
      with assms Some cm True show ?thesis by (auto simp: mpp_decoder_init_def Let_def)
    next
      case g: (Some g)
      let ?c = "ctx\<lparr>mpp_ctx := Some c, mpp_mpi := Some m, frm_grp := Some g\<rparr>"
      from assms Some cm True g obtain ps fs r1 c1 where
        a: "alloc_decode_bufs env ps fs (nat MPP_BUFFER_COUNT) 0 ?c = Some (r1, c1)"
        and b: "ctx' = c1 \<or> ctx' = c1\<lparr>current_buf_idx := 0, mpp_initialized := 1\<rparr>"
        by (auto simp: mpp_decoder_init_def Let_def split: if_splits prod.splits option.splits)
      from alloc_decode_bufs_keeps [OF a] b show ?thesis by auto
    qed
  qed
qed

lemma demo_init:
  "camera_init demo_init_env (Some ''/dev/video12'') 2 2 30 = Some (Some mismatch_camera)"
  by code_simp

lemma mismatch_frame_overflows:
  "decode_mjpeg_to_bgra_fast (demo_decode_env\<lparr>de_out_frame := Some frame_4x2\<rparr>) mismatch_camera
     \<lparr>buf_start = Map_at 4096, buf_length = 8\<rparr> 4 = None"
  by code_simp

text \<open>
  Claim C6, as far as the code goes. When \<open>camera_init\<close> succeeds, the driver's pixel
  format was MJPEG, at least two buffers were granted, and the context's width and height
  are the values the driver returned. The two BGRA buffers, however, are sized from the
  \<^emph>\<open>requested\<close> width and height, \<open>w * h * 4\<close>, not from the driver's.
\<close>

theorem camera_init_geometry:
  "camera_init env dev w h f = Some (Some ctx) \<Longrightarrow>
   ve_pixelformat (ie_v4l2 env) = V4L2_PIX_FMT_MJPEG
   \<and> 2 \<le> ve_req_count (ie_v4l2 env)
   \<and> width ctx = sint (ve_width (ie_v4l2 env))
   \<and> height ctx = sint (ve_height (ie_v4l2 env))
   \<and> bgra_buffer_size ctx = w * h * 4
   \<and> (\<exists>b0 b1. bgra_buffer ctx = [Some b0, Some b1]
         \<and> length b0 = nat (w * h * 4) \<and> length b1 = nat (w * h * 4))"
proof -
  assume a: "camera_init env dev w h f = Some (Some ctx)"
  let ?c0 = "zeroed_context\<lparr>width := w, height := h, fps := f, v4l2_fd := -1,
                            bgra_write_idx := 0\<rparr>"
  from a obtain c1 c2 where
    v: "v4l2_init (ie_v4l2 env) ?c0 = Some (0, c1)" and
    m: "mpp_decoder_init (ie_mpp env) c1 = Some (0, c2)" and
    c: "ctx = c2\<lparr>bgra_buffer_size := w * h * 4,
                 bgra_buffer := [map_option (sized_block (w * h * 4)) (ie_malloc0 env),
                                 map_option (sized_block (w * h * 4)) (ie_malloc1 env)]\<rparr>" and
    n: "ie_malloc0 env \<noteq> None" "ie_malloc1 env \<noteq> None"
    by (auto simp: camera_init_def Let_def split: if_splits option.splits prod.splits)
  have len: "length (sized_block n bs) = nat n" for n bs
    by (simp add: sized_block_def)
  from v4l2_init_success [OF v] mpp_decoder_init_keeps [OF m] c n len
  show ?thesis by auto
qed

text \<open>
  The failing input of claim C6: 2 by 2 is requested and the driver answers 4 by 2. The
  context reports 4 by 2 while each BGRA buffer has the 16 bytes of 2 by 2, and converting
  the first 4 by 2 frame writes past the end of the buffer.
\<close>

theorem camera_init_geometry_witness:
  "camera_init demo_init_env (Some ''/dev/video12'') 2 2 30 = Some (Some mismatch_camera)
   \<and> width mismatch_camera = 4 \<and> height mismatch_camera = 2
   \<and> bgra_buffer_size mismatch_camera = 2 * 2 * 4
   \<and> bgra_buffer_size mismatch_camera < width mismatch_camera * height mismatch_camera * 4
   \<and> decode_mjpeg_to_bgra_fast (demo_decode_env\<lparr>de_out_frame := Some frame_4x2\<rparr>)
        mismatch_camera \<lparr>buf_start = Map_at 4096, buf_length = 8\<rparr> 4 = None"
proof -
  have v: "sint (ve_width (ie_v4l2 demo_init_env)) = 4"
    "sint (ve_height (ie_v4l2 demo_init_env)) = 2"
    by (simp_all add: demo_init_env_def demo_v4l2_env_def)
  from camera_init_geometry
         [of demo_init_env "Some ''/dev/video12''" 2 2 30 mismatch_camera, OF demo_init]
       v demo_init mismatch_frame_overflows
  show ?thesis by simp
qed

section \<open>Properties of the capture worker\<close>

lemma demo_iteration:
  "capture_iteration demo_iter_env demo_camera_started
     = Some (Loop_again,
             demo_camera_started\<lparr>current_buf_idx := 1,
               bgra_buffer := [Some blue16, Some pattern16], bgra_write_idx := 1,
               frame_count := 1, decode_count := 1\<rparr>,
             [Ioctl_dqbuf, Invoke_callback 5 (Some 6) 0 2 2 8, Ioctl_qbuf 2])"
  by code_simp

lemma corrupt_iteration:
  "capture_iteration corrupt_iter_env demo_camera_started
     = Some (Loop_again, demo_camera_started\<lparr>current_buf_idx := 1, frame_count := 1\<rparr>,
             [Ioctl_dqbuf, Ioctl_qbuf 2])"
  by code_simp

lemma empty_iteration:
  "capture_iteration empty_iter_env demo_camera_started
     = Some (Loop_again, demo_camera_started\<lparr>frame_count := 1\<rparr>,
             [Ioctl_dqbuf, Ioctl_qbuf 2])"
  by code_simp

lemma decoder_delivers_Some:
  "decoder_delivers env = Some fr \<Longrightarrow>
   de_packet_init_ok env \<and> de_frame_init_ok env \<and> de_poll_input_ok env
   \<and> de_dequeue_input_ok env \<and> de_enqueue_input_ok env \<and> de_poll_output_ok env
   \<and> de_dequeue_output_ok env \<and> de_out_frame env = Some fr
   \<and> fr_buffer fr \<noteq> None \<and> fr_errinfo fr = 0"
  by (auto simp: decoder_delivers_def split: if_splits option.splits)

lemma decoder_delivers_None:
  "decoder_delivers env = None \<Longrightarrow>
   \<not> de_packet_init_ok env \<or> \<not> de_frame_init_ok env \<or> \<not> de_poll_input_ok env
   \<or> \<not> de_dequeue_input_ok env \<or> \<not> de_enqueue_input_ok env \<or> \<not> de_poll_output_ok env
   \<or> \<not> de_dequeue_output_ok env
   \<or> (case de_out_frame env of
         None \<Rightarrow> True
       | Some fr \<Rightarrow> fr_buffer fr = None \<or> fr_errinfo fr \<noteq> 0)"
  by (auto simp: decoder_delivers_def split: if_splits option.splits)

lemma bgra_slot_index: "bgra_slot ctx k = Some b \<Longrightarrow> k = 0 \<or> k = 1"
  by (auto simp: bgra_slot_def split: if_splits)

lemma bgra_slot_other:
  "bgra_slot (ctx\<lparr>current_buf_idx := x\<rparr>) k = bgra_slot ctx k"
  "bgra_slot (ctx\<lparr>frame_count := y\<rparr>) k = bgra_slot ctx k"
  by (simp_all add: bgra_slot_def)

lemma decode_too_large:
  assumes "0 \<le> current_buf_idx ctx" "nat (current_buf_idx ctx) < length (decode_bufs ctx)"
    and "pkt_buf_size (decode_bufs ctx ! nat (current_buf_idx ctx)) < n"
  shows "decode_mjpeg_to_bgra_fast env ctx buf n
           = Some (-1, ctx\<lparr>current_buf_idx := (current_buf_idx ctx + 1) mod MPP_BUFFER_COUNT\<rparr>)"
  using assms by (simp add: decode_mjpeg_to_bgra_fast_def Let_def)

lemma decode_not_delivered:
  assumes "0 \<le> current_buf_idx ctx" "nat (current_buf_idx ctx) < length (decode_bufs ctx)"
    and "pkt_buf (decode_bufs ctx ! nat (current_buf_idx ctx)) \<noteq> None"
    and "buf_start buf = Map_at a" "n \<le> buf_length buf"
    and "decoder_delivers env = None"
  shows "decode_mjpeg_to_bgra_fast env ctx buf n
           = Some (-1, ctx\<lparr>current_buf_idx := (current_buf_idx ctx + 1) mod MPP_BUFFER_COUNT\<rparr>)"
  using assms(1-5) decoder_delivers_None [OF assms(6)]
  by (auto simp: decode_mjpeg_to_bgra_fast_def Let_def split: option.splits)

lemma decode_delivered:
  assumes "0 \<le> current_buf_idx ctx" "nat (current_buf_idx ctx) < length (decode_bufs ctx)"
    and "n \<le> pkt_buf_size (decode_bufs ctx ! nat (current_buf_idx ctx))"
    and "pkt_buf (decode_bufs ctx ! nat (current_buf_idx ctx)) \<noteq> None"
    and "buf_start buf = Map_at a" "n \<le> buf_length buf"
    and "decoder_delivers env = Some fr" "fr_buffer fr = Some yuv"
    and "bgra_slot ctx (bgra_write_idx ctx) = Some out" "frame_fits fr yuv out"
    and "in_int_range (decode_count ctx + 1)"
  shows "\<exists>conv. decode_mjpeg_to_bgra_fast env ctx buf n
           = Some (0, ctx\<lparr>current_buf_idx := (current_buf_idx ctx + 1) mod MPP_BUFFER_COUNT,
                          bgra_buffer := (bgra_buffer ctx)
                            [nat (bgra_write_idx ctx) := Some conv],
                          bgra_write_idx := 1 - bgra_write_idx ctx,
                          decode_count := decode_count ctx + 1\<rparr>)"
proof -
  from frame_fits_converts [OF assms(10)] obtain conv where
    c: "yuv_to_bgra_cpu yuv out (sint (fr_width fr)) (sint (fr_height fr))
          (sint (fr_hor_stride fr)) (sint (fr_ver_stride fr)) (fr_fmt fr) = Some conv"
    by blast
  from decoder_delivers_Some [OF assms(7)] assms(1-6,8,9,11) c
  have "decode_mjpeg_to_bgra_fast env ctx buf n
           = Some (0, ctx\<lparr>current_buf_idx := (current_buf_idx ctx + 1) mod MPP_BUFFER_COUNT,
                          bgra_buffer := (bgra_buffer ctx)
                            [nat (bgra_write_idx ctx) := Some conv],
                          bgra_write_idx := 1 - bgra_write_idx ctx,
                          decode_count := decode_count ctx + 1\<rparr>)"
    by (simp add: decode_mjpeg_to_bgra_fast_def Let_def bgra_slot_other)
  then show ?thesis ..
qed

text \<open>
  Claim C4. Every pass of the capture loop that dequeues a buffer, and in which no statement
  leaves its objects (\<open>pass_defined\<close>), returns. The frame counter is up by exactly one,
  and the calls of the pass are \<open>VIDIOC_DQBUF\<close>, then at most the frame callback, then
  exactly one \<open>VIDIOC_QBUF\<close> of the dequeued index, whether the decode was skipped for
  want of bytes, failed or succeeded. A decode that is run returns 0 when the bytes fit the
  packet buffer and the decoder delivers a frame without error, and -1 otherwise; the
  decode counter is up by one in the first case and unchanged when the decode returns -1 or
  is skipped. Whether the loop goes on depends on the answer to \<open>VIDIOC_QBUF\<close> alone, not
  on the decode: when that answer is success the worker is back at the loop test with the
  new context, and it returns that context when \<open>running\<close> is clear by then.
\<close>

theorem dequeued_buffer_counted_and_requeued:
  "it_select env \<noteq> -1 \<and> it_select env \<noteq> 0 \<and> xioctl (it_dqbuf env) = Some Answer_ok
   \<and> pass_defined env ctx \<Longrightarrow>
   \<exists>b ctx' mid.
     xioctl (it_qbuf env) = Some b
     \<and> capture_iteration env ctx
         = Some (if b = Answer_ok then Loop_again else Loop_break, ctx',
                 Ioctl_dqbuf # mid @ [Ioctl_qbuf (unat (it_index env))])
     \<and> frame_count ctx' = frame_count ctx + 1
     \<and> (\<forall>n. Ioctl_qbuf n \<notin> set mid)
     \<and> (it_bytesused env \<noteq> 0 \<longrightarrow>
          (\<exists>c. decode_mjpeg_to_bgra_fast (it_decode env)
                  (ctx\<lparr>frame_count := frame_count ctx + 1\<rparr>)
                  (v4l2_buffers ctx ! unat (it_index env)) (unat (it_bytesused env))
                = Some (if decode_succeeds env ctx then 0 else -1, c)))
     \<and> decode_count ctx'
         = (if decode_succeeds env ctx then decode_count ctx + 1 else decode_count ctx)
     \<and> (\<not> decode_succeeds env ctx \<longrightarrow> mid = [])
     \<and> (b = Answer_ok \<longrightarrow>
          capture_loop ((True, env) # (False, env') # later) ctx
            = Some (ctx', Ioctl_dqbuf # mid @ [Ioctl_qbuf (unat (it_index env))]))
     \<and> (b = Answer_ok \<longrightarrow>
          capture_loop ((True, env) # sched) ctx
            = (case capture_loop sched ctx' of
                 None \<Rightarrow> None
               | Some (c, cs) \<Rightarrow>
                   Some (c, (Ioctl_dqbuf # mid @ [Ioctl_qbuf (unat (it_index env))]) @ cs)))"
proof -
  assume a: "it_select env \<noteq> -1 \<and> it_select env \<noteq> 0 \<and> xioctl (it_dqbuf env) = Some Answer_ok
   \<and> pass_defined env ctx"
  let ?c1 = "ctx\<lparr>frame_count := frame_count ctx + 1\<rparr>"
  let ?idx = "unat (it_index env)"
  let ?n = "unat (it_bytesused env)"
  let ?slot = "decode_bufs ctx ! nat (current_buf_idx ctx)"
  let ?buf = "v4l2_buffers ctx ! ?idx"
  let ?ex = "\<lambda>b. if b = Answer_ok then Loop_again else Loop_break"
  from a have fc: "in_int_range (frame_count ctx + 1)"
    by (simp add: pass_defined_def)
  from a obtain b where q: "xioctl (it_qbuf env) = Some b"
    by (auto simp: pass_defined_def)
  have ex: "(if failed b then Loop_break else Loop_again) = ?ex b"
    by (simp add: failed_def)
  \<comment> \<open>It suffices to give the context and the calls between the two ioctls.\<close>
  have fin: ?thesis
    if it: "capture_iteration env ctx = Some (?ex b, c', Ioctl_dqbuf # mid @ [Ioctl_qbuf ?idx])"
      and f: "frame_count c' = frame_count ctx + 1"
      and m: "\<forall>n. Ioctl_qbuf n \<notin> set mid"
      and d: "it_bytesused env \<noteq> 0 \<longrightarrow>
               (\<exists>c. decode_mjpeg_to_bgra_fast (it_decode env) ?c1 ?buf ?n
                       = Some (if decode_succeeds env ctx then 0 else -1, c))"
      and dc: "decode_count c'
                 = (if decode_succeeds env ctx then decode_count ctx + 1 else decode_count ctx)"
      and e: "\<not> decode_succeeds env ctx \<longrightarrow> mid = []"
    for c' mid
  proof -
    have l1: "b = Answer_ok \<longrightarrow>
          capture_loop ((True, env) # (False, env') # later) ctx
            = Some (c', Ioctl_dqbuf # mid @ [Ioctl_qbuf ?idx])"
      using it by simp
    have l2: "b = Answer_ok \<longrightarrow>
          capture_loop ((True, env) # sched) ctx
            = (case capture_loop sched c' of
                 None \<Rightarrow> None
               | Some (c, cs) \<Rightarrow> Some (c, (Ioctl_dqbuf # mid @ [Ioctl_qbuf ?idx]) @ cs))"
      using it by simp
    from q it f m d dc e l1 l2 show ?thesis by blast
  qed
  show ?thesis
  proof (cases "it_bytesused env = 0")
    case True
    have "capture_iteration env ctx = Some (?ex b, ?c1, Ioctl_dqbuf # [] @ [Ioctl_qbuf ?idx])"
      using a q fc True ex by (simp add: capture_iteration_def Let_def failed_def)
    moreover have "\<not> decode_succeeds env ctx"
      using True by (simp add: decode_succeeds_def)
    ultimately show ?thesis using True by (intro fin [of ?c1 "[]"]) simp_all
  next
    case False
    then have pos: "0 < it_bytesused env" by (simp add: word_greater_zero_iff)
    from a False have
      i4: "?idx < length (v4l2_buffers ctx)" and
      s0: "0 \<le> current_buf_idx ctx" "nat (current_buf_idx ctx) < length (decode_bufs ctx)"
      by (simp_all add: pass_defined_def)
    \<comment> \<open>The pass around a decode that returns \<open>-1\<close>.\<close>
    have failing: ?thesis
      if dd: "decode_mjpeg_to_bgra_fast (it_decode env) ?c1 ?buf ?n
                = Some (-1, ?c1\<lparr>current_buf_idx :=
                                  (current_buf_idx ctx + 1) mod MPP_BUFFER_COUNT\<rparr>)"
        and ns: "\<not> decode_succeeds env ctx"
    proof -
      let ?c2 = "?c1\<lparr>current_buf_idx := (current_buf_idx ctx + 1) mod MPP_BUFFER_COUNT\<rparr>"
      have "capture_iteration env ctx
              = Some (?ex b, ?c2, Ioctl_dqbuf # [] @ [Ioctl_qbuf ?idx])"
        using a q fc pos i4 dd ex
        by (simp add: capture_iteration_def Let_def failed_def)
      then show ?thesis using ns dd by (intro fin [of ?c2 "[]"]) simp_all
    qed
    show ?thesis
    proof (cases "?n \<le> pkt_buf_size ?slot")
      case False
      then have "pkt_buf_size ?slot < ?n" by simp
      with s0 have "decode_mjpeg_to_bgra_fast (it_decode env) ?c1 ?buf ?n
                = Some (-1, ?c1\<lparr>current_buf_idx :=
                                  (current_buf_idx ?c1 + 1) mod MPP_BUFFER_COUNT\<rparr>)"
        by (intro decode_too_large) simp_all
      moreover have "\<not> decode_succeeds env ctx"
        using False by (simp add: decode_succeeds_def)
      ultimately show ?thesis by (intro failing) simp_all
    next
      case fits: True
      with a \<open>it_bytesused env \<noteq> 0\<close> obtain adr where
        pk: "pkt_buf ?slot \<noteq> None" and
        mp: "buf_start ?buf = Map_at adr" "?n \<le> buf_length ?buf"
        by (auto simp: pass_defined_def split: map_ptr.splits)
      show ?thesis
      proof (cases "decoder_delivers (it_decode env)")
        case None
        with s0 pk mp have "decode_mjpeg_to_bgra_fast (it_decode env) ?c1 ?buf ?n
                = Some (-1, ?c1\<lparr>current_buf_idx :=
                                  (current_buf_idx ?c1 + 1) mod MPP_BUFFER_COUNT\<rparr>)"
          by (intro decode_not_delivered [where a = adr]) simp_all
        moreover have "\<not> decode_succeeds env ctx"
          using None by (simp add: decode_succeeds_def)
        ultimately show ?thesis by (intro failing) simp_all
      next
        case (Some fr)
        with a \<open>it_bytesused env \<noteq> 0\<close> fits obtain yuv out where
          fb: "fr_buffer fr = Some yuv" and
          sl: "bgra_slot ctx (bgra_write_idx ctx) = Some out" and
          ff: "frame_fits fr yuv out" and
          dr: "in_int_range (decode_count ctx + 1)" and
          st: "callback ctx \<noteq> None \<longrightarrow> in_int_range (width ctx * 4)"
          by (auto simp: pass_defined_def split: option.splits)
        have ok: "decode_succeeds env ctx"
          using Some fits \<open>it_bytesused env \<noteq> 0\<close> by (simp add: decode_succeeds_def)
        from decode_delivered [of ?c1 ?n ?buf adr "it_decode env" fr yuv out]
             s0 fits pk mp Some fb sl ff dr
        obtain conv where
          dd: "decode_mjpeg_to_bgra_fast (it_decode env) ?c1 ?buf ?n
                 = Some (0, ?c1\<lparr>current_buf_idx :=
                                   (current_buf_idx ctx + 1) mod MPP_BUFFER_COUNT,
                                 bgra_buffer := (bgra_buffer ctx)
                                   [nat (bgra_write_idx ctx) := Some conv],
                                 bgra_write_idx := 1 - bgra_write_idx ctx,
                                 decode_count := decode_count ctx + 1\<rparr>)"
          by (auto simp: bgra_slot_other)
        let ?c2 = "?c1\<lparr>current_buf_idx := (current_buf_idx ctx + 1) mod MPP_BUFFER_COUNT,
                        bgra_buffer := (bgra_buffer ctx)
                          [nat (bgra_write_idx ctx) := Some conv],
                        bgra_write_idx := 1 - bgra_write_idx ctx,
                        decode_count := decode_count ctx + 1\<rparr>"
        from bgra_slot_index [OF sl] have
          ir: "in_int_range (1 - (1 - bgra_write_idx ctx))"
          by (auto simp: in_int_range_def)
        show ?thesis
        proof (cases "callback ctx")
          case None
          have "capture_iteration env ctx
                  = Some (?ex b, ?c2, Ioctl_dqbuf # [] @ [Ioctl_qbuf ?idx])"
            using a q fc pos i4 dd ex None
            by (simp add: capture_iteration_def Let_def failed_def)
          then show ?thesis using ok dd by (intro fin [of ?c2 "[]"]) simp_all
        next
          case cb: (Some cb)
          let ?call = "Invoke_callback cb (user_data ctx) (1 - (1 - bgra_write_idx ctx))
                         (width ctx) (height ctx) (width ctx * 4)"
          have "capture_iteration env ctx
                  = Some (?ex b, ?c2, Ioctl_dqbuf # [?call] @ [Ioctl_qbuf ?idx])"
            using a q fc pos i4 dd ex cb ir st
            by (simp add: capture_iteration_def Let_def failed_def)
          then show ?thesis using ok dd by (intro fin [of ?c2 "[?call]"]) simp_all
        qed
      qed
    qed
  qed
qed

text \<open>
  The three kinds of pass on \<open>demo_camera_started\<close>: a frame decoded and published, a
  frame that the decoder flags as damaged, and a dequeued buffer with no bytes.
\<close>

theorem dequeued_buffer_counted_and_requeued_witness:
  "(pass_defined demo_iter_env demo_camera_started
    \<and> decode_succeeds demo_iter_env demo_camera_started
    \<and> (\<exists>ctx' mid.
          capture_iteration demo_iter_env demo_camera_started
            = Some (Loop_again, ctx', Ioctl_dqbuf # mid @ [Ioctl_qbuf 2])
          \<and> frame_count ctx' = 1 \<and> decode_count ctx' = 1
          \<and> capture_loop [(True, demo_iter_env), (False, demo_iter_env)] demo_camera_started
              = Some (ctx', Ioctl_dqbuf # mid @ [Ioctl_qbuf 2])))
   \<and> (pass_defined corrupt_iter_env demo_camera_started
    \<and> \<not> decode_succeeds corrupt_iter_env demo_camera_started
    \<and> (\<exists>ctx'.
          capture_iteration corrupt_iter_env demo_camera_started
            = Some (Loop_again, ctx', [Ioctl_dqbuf, Ioctl_qbuf 2])
          \<and> frame_count ctx' = 1 \<and> decode_count ctx' = 0
          \<and> capture_loop [(True, corrupt_iter_env), (False, demo_iter_env)] demo_camera_started
              = Some (ctx', [Ioctl_dqbuf, Ioctl_qbuf 2])))
   \<and> (pass_defined empty_iter_env demo_camera_started
    \<and> \<not> decode_succeeds empty_iter_env demo_camera_started
    \<and> (\<exists>ctx'.
          capture_iteration empty_iter_env demo_camera_started
            = Some (Loop_again, ctx', [Ioctl_dqbuf, Ioctl_qbuf 2])
          \<and> frame_count ctx' = 1 \<and> decode_count ctx' = 0
          \<and> capture_loop [(True, empty_iter_env), (False, demo_iter_env)] demo_camera_started
              = Some (ctx', [Ioctl_dqbuf, Ioctl_qbuf 2])))"
proof -
  have p1: "pass_defined demo_iter_env demo_camera_started"
    and p2: "pass_defined corrupt_iter_env demo_camera_started"
    and p3: "pass_defined empty_iter_env demo_camera_started"
    by code_simp+
  have s1: "decode_succeeds demo_iter_env demo_camera_started"
    and s2: "\<not> decode_succeeds corrupt_iter_env demo_camera_started"
    and s3: "\<not> decode_succeeds empty_iter_env demo_camera_started"
    by code_simp+
  have h1: "it_select demo_iter_env \<noteq> -1 \<and> it_select demo_iter_env \<noteq> 0
            \<and> xioctl (it_dqbuf demo_iter_env) = Some Answer_ok
            \<and> pass_defined demo_iter_env demo_camera_started"
    using p1 by (simp add: demo_iter_env_def)
  have h2: "it_select corrupt_iter_env \<noteq> -1 \<and> it_select corrupt_iter_env \<noteq> 0
            \<and> xioctl (it_dqbuf corrupt_iter_env) = Some Answer_ok
            \<and> pass_defined corrupt_iter_env demo_camera_started"
    using p2 by (simp add: corrupt_iter_env_def demo_iter_env_def)
  have h3: "it_select empty_iter_env \<noteq> -1 \<and> it_select empty_iter_env \<noteq> 0
            \<and> xioctl (it_dqbuf empty_iter_env) = Some Answer_ok
            \<and> pass_defined empty_iter_env demo_camera_started"
    using p3 by (simp add: empty_iter_env_def demo_iter_env_def)
  have q: "xioctl (it_qbuf demo_iter_env) = Some Answer_ok"
    "xioctl (it_qbuf corrupt_iter_env) = Some Answer_ok"
    "xioctl (it_qbuf empty_iter_env) = Some Answer_ok"
    by (simp_all add: corrupt_iter_env_def empty_iter_env_def demo_iter_env_def)
  have n: "unat (it_index demo_iter_env) = 2" "unat (it_index corrupt_iter_env) = 2"
    "unat (it_index empty_iter_env) = 2"
    by (simp_all add: corrupt_iter_env_def empty_iter_env_def demo_iter_env_def)
  have z: "frame_count demo_camera_started = 0" "decode_count demo_camera_started = 0"
    by (simp_all add: demo_camera_started_def demo_camera_def)
  from dequeued_buffer_counted_and_requeued
         [where env = demo_iter_env and ctx = demo_camera_started
            and env' = demo_iter_env and later = "[]" and sched = "[]", OF h1]
  have "\<exists>ctx' mid.
          capture_iteration demo_iter_env demo_camera_started
            = Some (Loop_again, ctx', Ioctl_dqbuf # mid @ [Ioctl_qbuf 2])
          \<and> frame_count ctx' = 1 \<and> decode_count ctx' = 1
          \<and> capture_loop [(True, demo_iter_env), (False, demo_iter_env)] demo_camera_started
              = Some (ctx', Ioctl_dqbuf # mid @ [Ioctl_qbuf 2])"
    unfolding q n z using s1 by (auto simp del: capture_loop.simps)
  moreover
  from dequeued_buffer_counted_and_requeued
         [where env = corrupt_iter_env and ctx = demo_camera_started
            and env' = demo_iter_env and later = "[]" and sched = "[]", OF h2]
  have "\<exists>ctx'.
          capture_iteration corrupt_iter_env demo_camera_started
            = Some (Loop_again, ctx', [Ioctl_dqbuf, Ioctl_qbuf 2])
          \<and> frame_count ctx' = 1 \<and> decode_count ctx' = 0
          \<and> capture_loop [(True, corrupt_iter_env), (False, demo_iter_env)] demo_camera_started
              = Some (ctx', [Ioctl_dqbuf, Ioctl_qbuf 2])"
    unfolding q n z using s2 by (auto simp del: capture_loop.simps)
  moreover
  from dequeued_buffer_counted_and_requeued
         [where env = empty_iter_env and ctx = demo_camera_started
            and env' = demo_iter_env and later = "[]" and sched = "[]", OF h3]
  have "\<exists>ctx'.
          capture_iteration empty_iter_env demo_camera_started
            = Some (Loop_again, ctx', [Ioctl_dqbuf, Ioctl_qbuf 2])
          \<and> frame_count ctx' = 1 \<and> decode_count ctx' = 0
          \<and> capture_loop [(True, empty_iter_env), (False, demo_iter_env)] demo_camera_started
              = Some (ctx', [Ioctl_dqbuf, Ioctl_qbuf 2])"
    unfolding q n z using s3 by (auto simp del: capture_loop.simps)
  ultimately show ?thesis using p1 p2 p3 s1 s2 s3 by blast
qed

section \<open>Properties of the frame exchange\<close>

text \<open>
  Claim C1 does not hold of the code. \<open>camera_capture_frame\<close> computes \<open>read_idx\<close> before
  it takes the mutex: after the reader's first step the index is taken and the mutex is
  free. If the worker then publishes a frame and starts the next one before the reader
  locks, the reader copies slot 1 while the worker converts into slot 1.
\<close>

theorem reader_meets_writer_in_one_slot:
  "(\<exists>s. reader_step exchange_init = Some s \<and> ex_rpc s = R_started \<and> ex_mutex s = None
        \<and> ex_read_idx s = 1)
   \<and> (\<exists>s. exchange_run [Reader, Writer, Writer, Writer, Writer, Writer, Writer, Reader]
             exchange_init = Some s
        \<and> same_slot_in_use s \<and> ex_read_idx s = 1 \<and> ex_local_write_idx s = 1)"
  by (simp add: exchange_init_def same_slot_in_use_def)

lemma inv_init: "exchange_inv exchange_init"
  by (simp add: exchange_inv_def exchange_init_def)

lemma inv_writer: "exchange_inv s \<Longrightarrow> writer_step s = Some s' \<Longrightarrow> exchange_inv s'"
  by (cases "ex_wpc s"; cases "ex_rpc s") (auto simp: exchange_inv_def split: if_splits)

lemma inv_reader: "exchange_inv s \<Longrightarrow> spec_reader_step s = Some s' \<Longrightarrow> exchange_inv s'"
  by (cases "ex_wpc s"; cases "ex_rpc s") (auto simp: exchange_inv_def split: if_splits)

lemma inv_run: "exchange_inv s \<Longrightarrow> spec_exchange_run sched s = Some s' \<Longrightarrow> exchange_inv s'"
proof (induction sched arbitrary: s)
  case Nil
  then show ?case by simp
next
  case (Cons t sched)
  show ?case
  proof (cases t)
    case Reader
    with Cons.prems obtain s1 where a: "spec_reader_step s = Some s1"
      and b: "spec_exchange_run sched s1 = Some s'"
      by (auto split: option.splits)
    from Cons.IH [OF inv_reader [OF Cons.prems(1) a] b] show ?thesis .
  next
    case Writer
    with Cons.prems obtain s1 where a: "writer_step s = Some s1"
      and b: "spec_exchange_run sched s1 = Some s'"
      by (auto split: option.splits)
    from Cons.IH [OF inv_writer [OF Cons.prems(1) a] b] show ?thesis .
  qed
qed

text \<open>With the index read under the mutex, as section 4.D of the specification has it, no
  schedule brings reader and writer into one slot.\<close>

lemma spec_exchange_never_shares:
  "spec_exchange_run sched exchange_init = Some s \<Longrightarrow> \<not> same_slot_in_use s"
proof -
  assume "spec_exchange_run sched exchange_init = Some s"
  from inv_run [OF inv_init this]
  have "ex_rpc s = R_in_memcpy \<longrightarrow> ex_read_idx s = 1 - ex_write_idx s"
    and "ex_wpc s = W_in_convert \<longrightarrow> ex_local_write_idx s = ex_write_idx s"
    by (simp_all add: exchange_inv_def)
  moreover have "1 - ex_write_idx s \<noteq> ex_write_idx s" by presburger
  ultimately show ?thesis by (auto simp: same_slot_in_use_def)
qed

end
